theory Spec2Isabelle
  imports Main "HOL-Library.Sublist" "HOL-Library.AList"
begin

section \<open>Strings, bytes and errors\<close>

text \<open>
  A Python \<open>str\<close> is a sequence of Unicode code points, and \<open>ord\<close> and \<open>chr\<close> convert
  between a one-character string and its code point. A string is modelled as the list
  of its code points and a \<open>bytes\<close> object as the list of its byte values.
\<close>

type_synonym codepoint = int
type_synonym pystr = "codepoint list"
type_synonym pybytes = "int list"

datatype exn =
    TypeError
  | ValueError
  | RuntimeError
  | IndexError
  | OverflowError
  | OSError
  | InvalidSignature
  | BinasciiError
  | KeyError
  | OtherException

section \<open>The variation-selector codec\<close>

definition VARIATION_SELECTOR_START :: int where
  "VARIATION_SELECTOR_START = 0xFE00"

definition VARIATION_SELECTOR_END :: int where
  "VARIATION_SELECTOR_END = 0xFE0F"

definition VARIATION_SELECTOR_SUPPLEMENT_START :: int where
  "VARIATION_SELECTOR_SUPPLEMENT_START = 0xE0100"

definition VARIATION_SELECTOR_SUPPLEMENT_END :: int where
  "VARIATION_SELECTOR_SUPPLEMENT_END = 0xE01EF"

text \<open>\<open>to_variation_selector\<close>: the result is the code point of the returned character.\<close>

definition to_variation_selector :: "int \<Rightarrow> codepoint option" where
  "to_variation_selector byte =
     (if 0 \<le> byte \<and> byte < 16 then Some (VARIATION_SELECTOR_START + byte)
      else if 16 \<le> byte \<and> byte < 256
        then Some (VARIATION_SELECTOR_SUPPLEMENT_START + byte - 16)
      else None)"

definition from_variation_selector :: "codepoint \<Rightarrow> int option" where
  "from_variation_selector code_point =
     (if VARIATION_SELECTOR_START \<le> code_point \<and> code_point \<le> VARIATION_SELECTOR_END
        then Some (code_point - VARIATION_SELECTOR_START)
      else if VARIATION_SELECTOR_SUPPLEMENT_START \<le> code_point
              \<and> code_point \<le> VARIATION_SELECTOR_SUPPLEMENT_END
        then Some ((code_point - VARIATION_SELECTOR_SUPPLEMENT_START) + 16)
      else None)"

text \<open>
  The loop of \<open>extract_bytes\<close>, with the list \<open>decoded\<close> as an accumulator: \<open>break\<close>
  returns the accumulator, \<open>continue\<close> goes on with the rest of the text.
\<close>

fun extract_loop :: "int list \<Rightarrow> pystr \<Rightarrow> int list" where
  "extract_loop decoded [] = decoded"
| "extract_loop decoded (char # rest) =
     (case from_variation_selector char of
        None \<Rightarrow> (if length decoded > 0 then decoded else extract_loop decoded rest)
      | Some byte \<Rightarrow> extract_loop (decoded @ [byte]) rest)"

definition extract_bytes :: "pystr \<Rightarrow> pybytes" where
  "extract_bytes text = (let decoded = extract_loop [] text in
     if decoded \<noteq> [] then decoded else [])"

text \<open>
  \<open>_bytes_to_variation_selectors\<close>: the list comprehension, the filter of the values
  that are not \<open>None\<close>, and the length check.
\<close>

definition bytes_to_variation_selectors :: "pybytes \<Rightarrow> exn + codepoint list" where
  "bytes_to_variation_selectors data =
     (let selectors = map to_variation_selector data;
          valid_selectors = map the (filter (\<lambda>s. s \<noteq> None) selectors)
      in if length valid_selectors \<noteq> length data then Inl ValueError
         else Inr valid_selectors)"

text \<open>A code point of one of the two variation-selector blocks.\<close>

definition is_vs :: "codepoint \<Rightarrow> bool" where
  "is_vs c \<longleftrightarrow> (0xFE00 \<le> c \<and> c \<le> 0xFE0F) \<or> (0xE0100 \<le> c \<and> c \<le> 0xE01EF)"

definition is_byte :: "int \<Rightarrow> bool" where
  "is_byte b \<longleftrightarrow> 0 \<le> b \<and> b < 256"

section \<open>Values, keys and the library interface\<close>

text \<open>
  String literals of the source are written with \<open>cps\<close>, which gives the code points of
  an ASCII literal.
\<close>

definition cps :: "string \<Rightarrow> pystr" where
  "cps s = map of_char s"

text \<open>
  The values that travel in a payload are those a JSON or CBOR document holds. A
  dictionary keeps its insertion order, so it is an association list; assignment to a
  key replaces the value in place or appends a new entry.
\<close>

datatype jvalue =
    JNull
  | JBool bool
  | JInt int
  | JStr pystr
  | JList "jvalue list"
  | JDict "(pystr \<times> jvalue) list"

type_synonym pydict = "(pystr \<times> jvalue) list"

definition dict_get :: "pydict \<Rightarrow> pystr \<Rightarrow> jvalue option" where
  "dict_get d k = map_of d k"

definition dict_set :: "pydict \<Rightarrow> pystr \<Rightarrow> jvalue \<Rightarrow> pydict" where
  "dict_set d k v = AList.update k v d"

text \<open>
  Key objects of the \<open>cryptography\<close> package: the class of the object and an identifier
  of the key material. \<open>NotAKey\<close> stands for any object of another class.
\<close>

datatype key_class =
    Ed25519PrivateKey
  | Ed25519PublicKey
  | RSAPublicKey
  | DSAPublicKey
  | DHPublicKey
  | EllipticCurvePublicKey
  | X25519PublicKey
  | X448PublicKey
  | Ed448PublicKey
  | NotAKey

datatype key_obj = KeyObj key_class nat

fun class_of :: "key_obj \<Rightarrow> key_class" where
  "class_of (KeyObj c n) = c"

text \<open>
  Modelled from the spec: the enumeration \<open>SerializationFormat\<close> of \<open>crypto_utils\<close>,
  which is not among the sources; the spec names the three formats json, cbor and jumbf.
\<close>

datatype SerializationFormat = JSON | CBOR | JUMBF

text \<open>
  Modelled from the spec: the enumeration \<open>MetadataTarget\<close> of \<open>constants\<close>, which is
  not among the sources; the spec names these five policies, and \<open>REGEX_PATTERNS\<close> has
  a pattern for each of them.
\<close>

datatype MetadataTarget = WHITESPACE | PUNCTUATION | FIRST_LETTER | LAST_LETTER | ALL_CHARACTERS

fun target_value :: "MetadataTarget \<Rightarrow> pystr" where
  "target_value WHITESPACE = cps ''whitespace''"
| "target_value PUNCTUATION = cps ''punctuation''"
| "target_value FIRST_LETTER = cps ''first_letter''"
| "target_value LAST_LETTER = cps ''last_letter''"
| "target_value ALL_CHARACTERS = cps ''all_characters''"

text \<open>\<open>MetadataTarget(value)\<close>: the member with that value, \<open>None\<close> for the ValueError.\<close>

definition MetadataTarget_of :: "pystr \<Rightarrow> MetadataTarget option" where
  "MetadataTarget_of v =
     List.find (\<lambda>t. target_value t = v)
       [WHITESPACE, PUNCTUATION, FIRST_LETTER, LAST_LETTER, ALL_CHARACTERS]"

text \<open>Date and time values; \<open>tzinfo\<close> is the UTC offset in microseconds, \<open>None\<close> when naive.\<close>

record pydate =
  d_year :: int
  d_month :: int
  d_day :: int

record pydatetime =
  year :: int
  month :: int
  day :: int
  hour :: int
  minute :: int
  second :: int
  microsecond :: int
  tzinfo :: "int option"

text \<open>
  What the code calls and the sources do not contain: the functions of \<open>crypto_utils\<close>
  (\<open>serialize_payload\<close>, whose format argument is optional, \<open>sign_payload\<close>,
  \<open>verify_signature\<close>) and the functions of the Python library. They are parameters of
  the model.
  \<^item> \<open>re_space\<close> and \<open>re_word\<close> are the character classes \<open>\s\<close> and \<open>\w\<close> of \<open>re\<close>;
  \<^item> \<open>json_loads\<close> is \<open>json.loads(data.decode("utf-8"))\<close>, \<open>None\<close> when it raises;
  \<^item> \<open>cbor2\<close> is \<open>None\<close> when the module is absent, else its \<open>loads\<close>;
  \<^item> \<open>b64encode\<close> is \<open>base64.urlsafe_b64encode\<close>, and \<open>b64decode\<close> is
    \<open>base64.urlsafe_b64decode\<close> on ASCII input, \<open>None\<close> for \<open>binascii.Error\<close>;
  \<^item> \<open>dict_of_other\<close> is the builtin \<open>dict\<close> on a value that is not a dictionary;
  \<^item> \<open>fromisoformat\<close> is \<open>datetime.fromisoformat\<close>, \<open>None\<close> for its ValueError;
  \<^item> \<open>gmtime\<close> is \<open>datetime.fromtimestamp(ts, tz=timezone.utc)\<close> on a value that fits
    the platform's \<open>time_t\<close>;
  \<^item> \<open>astimezone_utc\<close> is \<open>dt.astimezone(timezone.utc)\<close> on an aware value, and
    \<open>strftime\<close> is \<open>dt.strftime("%Y-%m-%dT%H:%M:%SZ")\<close>.
\<close>

record lib =
  str_lower :: "pystr \<Rightarrow> pystr"
  re_space :: "codepoint \<Rightarrow> bool"
  re_word :: "codepoint \<Rightarrow> bool"
  serialize_payload :: "jvalue \<Rightarrow> SerializationFormat option \<Rightarrow> exn + pybytes"
  sign_payload :: "key_obj \<Rightarrow> pybytes \<Rightarrow> exn + pybytes"
  verify_signature :: "key_obj \<Rightarrow> pybytes \<Rightarrow> pybytes \<Rightarrow> exn + bool"
  json_loads :: "pybytes \<Rightarrow> jvalue option"
  cbor2 :: "(pybytes \<Rightarrow> jvalue option) option"
  b64encode :: "pybytes \<Rightarrow> pybytes"
  b64decode :: "pybytes \<Rightarrow> pybytes option"
  dict_of_other :: "jvalue \<Rightarrow> exn + pydict"
  fromisoformat :: "pystr \<Rightarrow> pydatetime option"
  gmtime :: "int \<Rightarrow> exn + pydatetime"
  astimezone_utc :: "pydatetime \<Rightarrow> exn + pydatetime"
  strftime :: "pydatetime \<Rightarrow> pystr"

section \<open>Timestamps\<close>

text \<open>
  The argument of \<open>_format_timestamp\<close>, by the class the \<open>isinstance\<close> chain finds
  (a \<open>bool\<close> is an \<open>int\<close>); \<open>TsOther\<close> is a value of any other class. Floating-point
  epoch values are not modelled.
\<close>

datatype ts_input =
    TsDatetime pydatetime
  | TsDate pydate
  | TsInt int
  | TsStr pystr
  | TsOther

text \<open>\<open>ts.replace("Z", "+00:00")\<close>.\<close>

fun replace_Z :: "pystr \<Rightarrow> pystr" where
  "replace_Z [] = []"
| "replace_Z (c # cs) = (if c = 0x5A then cps ''+00:00'' @ replace_Z cs else c # replace_Z cs)"

text \<open>\<open>datetime.combine(ts, datetime.min.time())\<close>.\<close>

definition combine_midnight :: "pydate \<Rightarrow> pydatetime" where
  "combine_midnight d =
     \<lparr>year = d_year d, month = d_month d, day = d_day d, hour = 0, minute = 0,
      second = 0, microsecond = 0, tzinfo = None\<rparr>"

text \<open>
  \<open>datetime.fromtimestamp(ts, tz=timezone.utc)\<close> on an integer: the argument is first
  converted to the platform's \<open>time_t\<close> (64 bits), which raises OverflowError when it
  does not fit; the rest is the library's \<open>gmtime\<close>.
\<close>

definition fromtimestamp_utc :: "lib \<Rightarrow> int \<Rightarrow> exn + pydatetime" where
  "fromtimestamp_utc L ts =
     (if ts < - (2 ^ 63) \<or> 2 ^ 63 \<le> ts then Inl OverflowError else gmtime L ts)"

text \<open>
  The first part of \<open>_format_timestamp\<close>: the value \<open>dt\<close>. The \<open>except\<close> clauses turn
  OSError and ValueError into ValueError and let every other exception through.
\<close>

fun timestamp_to_datetime :: "lib \<Rightarrow> ts_input \<Rightarrow> exn + pydatetime" where
  "timestamp_to_datetime L (TsDatetime ts) = Inr ts"
| "timestamp_to_datetime L (TsDate ts) = Inr (combine_midnight ts)"
| "timestamp_to_datetime L (TsInt ts) =
     (case fromtimestamp_utc L ts of
        Inl e \<Rightarrow> (if e = OSError \<or> e = ValueError then Inl ValueError else Inl e)
      | Inr dt \<Rightarrow> Inr dt)"
| "timestamp_to_datetime L (TsStr ts) =
     (case fromisoformat L (replace_Z ts) of
        None \<Rightarrow> Inl ValueError
      | Some dt \<Rightarrow> Inr dt)"
| "timestamp_to_datetime L TsOther = Inl TypeError"

definition format_timestamp :: "lib \<Rightarrow> ts_input option \<Rightarrow> exn + pystr option" where
  "format_timestamp L ts =
     (case ts of
        None \<Rightarrow> Inr None
      | Some t \<Rightarrow>
         (case timestamp_to_datetime L t of
            Inl e \<Rightarrow> Inl e
          | Inr dt \<Rightarrow>
             (if tzinfo dt = None then Inr (Some (strftime L (dt\<lparr>tzinfo := Some 0\<rparr>)))
              else (case astimezone_utc L dt of
                      Inl e \<Rightarrow> Inl e
                    | Inr dt' \<Rightarrow> Inr (Some (strftime L dt'))))))"

section \<open>Finding targets\<close>

text \<open>
  The \<open>target\<close> argument: absent, a member of the enumeration, a string, or a value of
  another class.
\<close>

datatype target_arg =
    TargetNone
  | TargetEnum MetadataTarget
  | TargetStr pystr
  | TargetOther

text \<open>
  Each pattern of \<open>REGEX_PATTERNS\<close> matches exactly one character, so \<open>finditer\<close> yields
  one match for each position where the pattern matches: \<open>\s\<close>, one of \<open>.,!?;:\<close>,
  a word character with no word character before it (\<open>\b\w\<close>), a word character with no
  word character after it (\<open>\w\b\<close>), and any character but a newline (\<open>.\<close>).
\<close>

fun pattern_matches_at :: "lib \<Rightarrow> MetadataTarget \<Rightarrow> pystr \<Rightarrow> nat \<Rightarrow> bool" where
  "pattern_matches_at L WHITESPACE s i = re_space L (s ! i)"
| "pattern_matches_at L PUNCTUATION s i = (s ! i \<in> set (cps ''.,!?;:''))"
| "pattern_matches_at L FIRST_LETTER s i =
     (re_word L (s ! i) \<and> (i = 0 \<or> \<not> re_word L (s ! (i - 1))))"
| "pattern_matches_at L LAST_LETTER s i =
     (re_word L (s ! i) \<and> (i + 1 = length s \<or> \<not> re_word L (s ! (i + 1))))"
| "pattern_matches_at L ALL_CHARACTERS s i = (s ! i \<noteq> 0x0A)"

definition finditer_starts :: "lib \<Rightarrow> MetadataTarget \<Rightarrow> pystr \<Rightarrow> nat list" where
  "finditer_starts L t s = filter (pattern_matches_at L t s) [0..<length s]"

fun find_targets :: "lib \<Rightarrow> pystr \<Rightarrow> target_arg \<Rightarrow> exn + nat list" where
  "find_targets L s TargetNone = Inr (finditer_starts L WHITESPACE s)"
| "find_targets L s (TargetEnum t) = Inr (finditer_starts L t s)"
| "find_targets L s (TargetStr v) =
     (case MetadataTarget_of (str_lower L v) of
        None \<Rightarrow> Inl ValueError
      | Some t \<Rightarrow> Inr (finditer_starts L t s))"
| "find_targets L s TargetOther = Inl TypeError"

section \<open>Embedding\<close>

record embed_args =
  text_arg :: pystr
  private_key :: key_obj
  signer_id :: pystr
  metadata_format :: pystr
  serialization_format :: SerializationFormat
  model_id :: "pystr option"
  timestamp :: "ts_input option"
  generationID :: "pystr option"
  target :: target_arg
  custom_metadata :: "pydict option"
  claim_generator :: "pystr option"
  actions :: "jvalue list option"
  ai_info :: "pydict option"
  custom_claims :: "pydict option"
  distribute_across_targets :: bool

text \<open>Truth of an optional string, list or dictionary: present and not empty.\<close>

fun truthy :: "'a list option \<Rightarrow> bool" where
  "truthy None = False"
| "truthy (Some xs) = (xs \<noteq> [])"

text \<open>The input validation of \<open>embed_metadata\<close>: the exception raised, if any.\<close>

fun validate_target :: "lib \<Rightarrow> target_arg \<Rightarrow> exn option" where
  "validate_target L TargetNone = None"
| "validate_target L (TargetEnum t) = None"
| "validate_target L (TargetStr v) =
     (case MetadataTarget_of (str_lower L v) of None \<Rightarrow> Some ValueError | Some t \<Rightarrow> None)"
| "validate_target L TargetOther = Some TypeError"

definition embed_validate :: "lib \<Rightarrow> embed_args \<Rightarrow> exn option" where
  "embed_validate L a =
     (if class_of (private_key a) \<noteq> Ed25519PrivateKey then Some TypeError
      else if signer_id a = [] then Some ValueError
      else if timestamp a = None then Some ValueError
      else (case validate_target L (target a) of
              Some e \<Rightarrow> Some e
            | None \<Rightarrow>
               (if metadata_format a \<noteq> cps ''basic'' \<and> metadata_format a \<noteq> cps ''manifest''
                then Some ValueError else None)))"

definition ts_value :: "pystr option \<Rightarrow> jvalue" where
  "ts_value iso_timestamp = (case iso_timestamp of None \<Rightarrow> JNull | Some s \<Rightarrow> JStr s)"

definition standard_keys :: "pystr list" where
  "standard_keys =
     [cps ''signer_id'', cps ''timestamp'', cps ''format'', cps ''model_id'',
      cps ''generationID'']"

definition basic_payload :: "embed_args \<Rightarrow> pystr option \<Rightarrow> pydict" where
  "basic_payload a iso_timestamp =
     (let p0 = [(cps ''signer_id'', JStr (signer_id a)),
                (cps ''timestamp'', ts_value iso_timestamp),
                (cps ''format'', JStr (metadata_format a))];
          p1 = (if truthy (model_id a)
                then dict_set p0 (cps ''model_id'') (JStr (the (model_id a))) else p0);
          p2 = (if truthy (generationID a)
                then dict_set p1 (cps ''generationID'') (JStr (the (generationID a))) else p1)
      in if truthy (custom_metadata a)
         then (let cm = the (custom_metadata a) in
               if \<exists>k \<in> set (map fst cm). k \<in> set standard_keys
               then dict_set p2 (cps ''custom_metadata'')
                      (JDict (filter (\<lambda>(k, v). k \<notin> set standard_keys) cm))
               else dict_set p2 (cps ''custom_metadata'') (JDict cm))
         else p2)"

text \<open>
  The inner manifest. The last step is \<open>inner_manifest["ai_info"]["model_id"] = model_id\<close>:
  the entry \<open>ai_info\<close> is a dictionary at that point.
\<close>

definition inner_manifest :: "embed_args \<Rightarrow> pydict" where
  "inner_manifest a =
     (let m0 = [];
          m1 = (if truthy (claim_generator a)
                then dict_set m0 (cps ''claim_generator'') (JStr (the (claim_generator a)))
                else m0);
          m2 = (if truthy (actions a)
                then dict_set m1 (cps ''actions'') (JList (the (actions a))) else m1);
          m3 = (if truthy (ai_info a)
                then dict_set m2 (cps ''ai_info'') (JDict (the (ai_info a))) else m2);
          m4 = (if truthy (custom_claims a)
                then dict_set m3 (cps ''custom_claims'') (JDict (the (custom_claims a)))
                else m3)
      in if truthy (model_id a)
         then (let m5 = (if dict_get m4 (cps ''ai_info'') = None
                         then dict_set m4 (cps ''ai_info'') (JDict []) else m4)
               in (case dict_get m5 (cps ''ai_info'') of
                     Some (JDict ai) \<Rightarrow>
                       dict_set m5 (cps ''ai_info'')
                         (JDict (dict_set ai (cps ''model_id'') (JStr (the (model_id a)))))
                   | _ \<Rightarrow> m5))
         else m4)"

definition manifest_payload :: "embed_args \<Rightarrow> pystr option \<Rightarrow> pydict" where
  "manifest_payload a iso_timestamp =
     dict_set [(cps ''signer_id'', JStr (signer_id a)),
               (cps ''timestamp'', ts_value iso_timestamp),
               (cps ''format'', JStr (metadata_format a))]
       (cps ''manifest'') (JDict (inner_manifest a))"

text \<open>
  Validation, timestamp conversion and payload construction. The conversion sits in a
  \<open>try\<close> that turns ValueError and TypeError into ValueError; the manifest branch
  converts the timestamp a second time, outside any \<open>try\<close>.
\<close>

definition embed_payload :: "lib \<Rightarrow> embed_args \<Rightarrow> exn + pydict" where
  "embed_payload L a =
     (case embed_validate L a of
        Some e \<Rightarrow> Inl e
      | None \<Rightarrow>
         (case format_timestamp L (timestamp a) of
            Inl e \<Rightarrow> (if e = ValueError \<or> e = TypeError then Inl ValueError else Inl e)
          | Inr iso_timestamp \<Rightarrow>
             (if metadata_format a = cps ''basic'' then Inr (basic_payload a iso_timestamp)
              else if metadata_format a = cps ''manifest''
                then (case format_timestamp L (timestamp a) of
                        Inl e \<Rightarrow> Inl e
                      | Inr iso_timestamp2 \<Rightarrow> Inr (manifest_payload a iso_timestamp2))
              else Inl ValueError)))"

text \<open>\<open>.rstrip(b"=")\<close> and \<open>.decode("ascii")\<close>, which raises on a byte above 127.\<close>

definition rstrip_eq :: "pybytes \<Rightarrow> pybytes" where
  "rstrip_eq bs = rev (dropWhile (\<lambda>c. c = 0x3D) (rev bs))"

definition decode_ascii :: "pybytes \<Rightarrow> pystr option" where
  "decode_ascii bs = (if \<forall>b \<in> set bs. 0 \<le> b \<and> b < 128 then Some bs else None)"

text \<open>The signing step: every exception in it becomes a RuntimeError.\<close>

definition embed_signature :: "lib \<Rightarrow> embed_args \<Rightarrow> pydict \<Rightarrow> exn + pystr" where
  "embed_signature L a payload_data =
     (case serialize_payload L (JDict payload_data) None of
        Inl e \<Rightarrow> Inl RuntimeError
      | Inr canonical_payload_bytes \<Rightarrow>
         (case sign_payload L (private_key a) canonical_payload_bytes of
            Inl e \<Rightarrow> Inl RuntimeError
          | Inr signature \<Rightarrow>
             (case decode_ascii (rstrip_eq (b64encode L signature)) of
                None \<Rightarrow> Inl RuntimeError
              | Some signature_b64 \<Rightarrow> Inr signature_b64)))"

definition outer_payload_to_embed :: "embed_args \<Rightarrow> pydict \<Rightarrow> pystr \<Rightarrow> pydict" where
  "outer_payload_to_embed a payload_data signature_b64 =
     [(cps ''payload'', JDict payload_data),
      (cps ''signature'', JStr signature_b64),
      (cps ''signer_id'', JStr (signer_id a)),
      (cps ''format'', JStr (metadata_format a))]"

definition embed_outer :: "lib \<Rightarrow> embed_args \<Rightarrow> exn + pydict" where
  "embed_outer L a =
     (case embed_payload L a of
        Inl e \<Rightarrow> Inl e
      | Inr payload_data \<Rightarrow>
         (case embed_signature L a payload_data of
            Inl e \<Rightarrow> Inl e
          | Inr signature_b64 \<Rightarrow> Inr (outer_payload_to_embed a payload_data signature_b64)))"

text \<open>Serialization of the outer object and its conversion to selectors.\<close>

definition embed_selector_chars :: "lib \<Rightarrow> embed_args \<Rightarrow> exn + codepoint list" where
  "embed_selector_chars L a =
     (case embed_outer L a of
        Inl e \<Rightarrow> Inl e
      | Inr outer \<Rightarrow>
         (case serialize_payload L (JDict outer) (Some (serialization_format a)) of
            Inl e \<Rightarrow> Inl RuntimeError
          | Inr outer_bytes \<Rightarrow>
             (case bytes_to_variation_selectors outer_bytes of
                Inl e \<Rightarrow> Inl RuntimeError
              | Inr selector_chars \<Rightarrow> Inr selector_chars)))"

text \<open>The slice \<open>text[i:j]\<close> for indices that are not negative.\<close>

definition slice :: "nat \<Rightarrow> nat \<Rightarrow> 'a list \<Rightarrow> 'a list" where
  "slice i j xs = take (j - i) (drop i xs)"

text \<open>
  The loop of the distributed mode over the sorted target indices, with the state
  \<open>last_text_idx\<close>, \<open>selector_idx\<close> and \<open>result_parts\<close> (already joined); \<open>text[target_idx]\<close>
  raises IndexError past the end.
\<close>

fun distribute_loop ::
  "pystr \<Rightarrow> codepoint list \<Rightarrow> nat list \<Rightarrow> nat \<Rightarrow> nat \<Rightarrow> pystr \<Rightarrow> exn + pystr" where
  "distribute_loop s selector_chars [] last_text_idx selector_idx result_parts =
     Inr (result_parts @ drop last_text_idx s)"
| "distribute_loop s selector_chars (target_idx # rest) last_text_idx selector_idx result_parts =
     (if selector_idx < length selector_chars
      then (if target_idx < length s
            then distribute_loop s selector_chars rest (target_idx + 1) (selector_idx + 1)
                   (result_parts @ slice last_text_idx target_idx s @ [s ! target_idx]
                      @ [selector_chars ! selector_idx])
            else Inl IndexError)
      else Inr (result_parts @ drop last_text_idx s))"

text \<open>
  From the selectors to the result: the early return for no selectors, the targets,
  the two capacity checks and the two ways of splicing. A target string was validated
  before, so \<open>find_targets\<close> raises nothing here that was not raised earlier.
\<close>

definition embed_splice ::
  "lib \<Rightarrow> pystr \<Rightarrow> target_arg \<Rightarrow> bool \<Rightarrow> codepoint list \<Rightarrow> exn + pystr" where
  "embed_splice L s tgt distribute selector_chars =
     (if selector_chars = [] then Inr s
      else (case find_targets L s (if tgt \<noteq> TargetNone then tgt else TargetEnum WHITESPACE) of
              Inl e \<Rightarrow> Inl e
            | Inr target_indices \<Rightarrow>
               (if target_indices = [] then Inl ValueError
                else if distribute
                  then (if length target_indices < length selector_chars then Inl ValueError
                        else distribute_loop s selector_chars (sort target_indices) 0 0 [])
                else (let target_idx = hd target_indices in
                      Inr (take (target_idx + 1) s @ selector_chars
                             @ drop (target_idx + 1) s)))))"

definition embed_metadata :: "lib \<Rightarrow> embed_args \<Rightarrow> exn + pystr" where
  "embed_metadata L a =
     (case embed_selector_chars L a of
        Inl e \<Rightarrow> Inl e
      | Inr selector_chars \<Rightarrow>
          embed_splice L (text_arg a) (target a) (distribute_across_targets a) selector_chars)"

section \<open>Extraction and verification\<close>

text \<open>\<open>_deserialize_outer_bytes\<close>: the JUMBF prefix, then JSON, then CBOR when available.\<close>

definition deserialize_outer_bytes :: "lib \<Rightarrow> pybytes \<Rightarrow> jvalue option" where
  "deserialize_outer_bytes L data =
     (if take 5 data = cps ''JUMBF'' then json_loads L (drop 5 data)
      else (case json_loads L data of
              Some v \<Rightarrow> Some v
            | None \<Rightarrow> (case cbor2 L of Some loads \<Rightarrow> loads data | None \<Rightarrow> None)))"

definition required_keys :: "pystr list" where
  "required_keys = [cps ''payload'', cps ''signature'', cps ''signer_id'', cps ''format'']"

text \<open>
  \<open>_extract_outer_payload\<close>. A document that is the JSON \<open>null\<close> deserializes to Python's
  \<open>None\<close>, which is the failure value.
\<close>

definition extract_outer_payload :: "lib \<Rightarrow> pystr \<Rightarrow> pydict option" where
  "extract_outer_payload L s =
     (let outer_bytes = extract_bytes s in
      if outer_bytes = [] then None
      else (case deserialize_outer_bytes L outer_bytes of
              None \<Rightarrow> None
            | Some outer_data \<Rightarrow>
               (case outer_data of
                  JDict d \<Rightarrow>
                    (if \<forall>k \<in> set required_keys. dict_get d k \<noteq> None then Some d else None)
                | _ \<Rightarrow> None)))"

text \<open>
  The key resolver: a callable that returns a key object or \<open>None\<close>, or raises; or an
  object that is not callable. The result of a verification is the triple of payload,
  verdict and signer id.
\<close>

datatype provider = Callable "jvalue \<Rightarrow> exn + key_obj option" | NotCallable

type_synonym verdict = "jvalue option \<times> bool \<times> jvalue option"

fun call_provider :: "provider \<Rightarrow> jvalue \<Rightarrow> exn + key_obj option" where
  "call_provider (Callable f) sid = f sid"
| "call_provider NotCallable sid = Inl TypeError"

text \<open>The calls that \<open>public_key_provider(signer_id)\<close> makes: none when it is not callable.\<close>

fun provider_calls :: "provider \<Rightarrow> jvalue \<Rightarrow> jvalue list" where
  "provider_calls (Callable f) sid = [sid]"
| "provider_calls NotCallable sid = []"

text \<open>The return value of every failure after the envelope was extracted.\<close>

definition failure :: "jvalue \<Rightarrow> bool \<Rightarrow> jvalue \<Rightarrow> verdict" where
  "failure inner_payload return_payload_on_failure sid =
     (if return_payload_on_failure then Some inner_payload else None, False, Some sid)"

text \<open>The builtin \<open>dict\<close>: a copy of a dictionary, the library's answer on another value.\<close>

definition py_dict :: "lib \<Rightarrow> jvalue \<Rightarrow> exn + pydict" where
  "py_dict L v = (case v of JDict d \<Rightarrow> Inr d | _ \<Rightarrow> dict_of_other L v)"

text \<open>
  \<open>signature_b64 + "=" * (-len(signature_b64) % 4)\<close>: a TypeError unless the signature
  is a string.
\<close>

definition pad_signature :: "jvalue \<Rightarrow> exn + pystr" where
  "pad_signature sg =
     (case sg of
        JStr s \<Rightarrow> Inr (s @ replicate (nat ((- int (length s)) mod 4)) 0x3D)
      | _ \<Rightarrow> Inl TypeError)"

text \<open>
  \<open>base64.urlsafe_b64decode\<close> on a string: it first encodes the string as ASCII and
  raises ValueError when that fails; the decoder proper raises \<open>binascii.Error\<close>.
\<close>

definition urlsafe_b64decode :: "lib \<Rightarrow> pystr \<Rightarrow> exn + pybytes" where
  "urlsafe_b64decode L s =
     (if \<exists>c \<in> set s. 128 \<le> c then Inl ValueError
      else (case b64decode L s of None \<Rightarrow> Inl BinasciiError | Some b \<Rightarrow> Inr b))"

definition is_public_key_type :: "key_obj \<Rightarrow> bool" where
  "is_public_key_type k \<longleftrightarrow>
     class_of k \<in> {Ed25519PublicKey, RSAPublicKey, DSAPublicKey, DHPublicKey,
                    EllipticCurvePublicKey, X25519PublicKey, X448PublicKey, Ed448PublicKey}"

text \<open>
  Steps 4 to 7 of \<open>verify_and_extract_metadata\<close>, once a key of an accepted class is at
  hand. The \<open>try\<close> around the serialization and the one around the verification catch
  every exception; the one around the base64 decoding catches \<open>binascii.Error\<close> and
  TypeError only.
\<close>

definition verify_with_key ::
  "lib \<Rightarrow> key_obj \<Rightarrow> jvalue \<Rightarrow> jvalue \<Rightarrow> bool \<Rightarrow> jvalue \<Rightarrow> exn + verdict" where
  "verify_with_key L public_key inner_payload signature_b64 return_payload_on_failure sid =
     (case (case py_dict L inner_payload of
              Inl e \<Rightarrow> Inl e
            | Inr d \<Rightarrow> serialize_payload L (JDict d) None) of
        Inl e \<Rightarrow> Inr (failure inner_payload return_payload_on_failure sid)
      | Inr canonical_payload_bytes \<Rightarrow>
         (case (case pad_signature signature_b64 of
                  Inl e \<Rightarrow> Inl e
                | Inr padded \<Rightarrow> urlsafe_b64decode L padded) of
            Inl e \<Rightarrow>
              (if e = BinasciiError \<or> e = TypeError
               then Inr (failure inner_payload return_payload_on_failure sid)
               else Inl e)
          | Inr signature_bytes \<Rightarrow>
             (case verify_signature L public_key canonical_payload_bytes signature_bytes of
                Inl e \<Rightarrow> Inr (failure inner_payload return_payload_on_failure sid)
              | Inr is_valid \<Rightarrow>
                 (if is_valid then Inr (Some inner_payload, True, Some sid)
                  else Inr (failure inner_payload return_payload_on_failure sid)))))"

text \<open>
  \<open>verify_and_extract_metadata\<close>. The second component of the result lists the
  arguments with which the key resolver was called.
\<close>

definition verify_and_extract_metadata ::
  "lib \<Rightarrow> pystr \<Rightarrow> provider \<Rightarrow> bool \<Rightarrow> (exn + verdict) \<times> jvalue list" where
  "verify_and_extract_metadata L s public_key_provider return_payload_on_failure =
     (case extract_outer_payload L s of
        None \<Rightarrow> (Inr (None, False, None), [])
      | Some outer_payload \<Rightarrow>
         (case dict_get outer_payload (cps ''signer_id'') of
            None \<Rightarrow> (Inl KeyError, [])
          | Some sid \<Rightarrow>
             (case dict_get outer_payload (cps ''payload'') of
                None \<Rightarrow> (Inl KeyError, [])
              | Some inner_payload \<Rightarrow>
                 (case dict_get outer_payload (cps ''signature'') of
                    None \<Rightarrow> (Inl KeyError, [])
                  | Some signature_b64 \<Rightarrow>
                     (case call_provider public_key_provider sid of
                        Inl e \<Rightarrow>
                          (Inr (failure inner_payload return_payload_on_failure sid),
                           provider_calls public_key_provider sid)
                      | Inr None \<Rightarrow>
                          (Inr (failure inner_payload return_payload_on_failure sid),
                           provider_calls public_key_provider sid)
                      | Inr (Some public_key) \<Rightarrow>
                          (if \<not> is_public_key_type public_key
                           then (Inr (failure inner_payload return_payload_on_failure sid),
                                 provider_calls public_key_provider sid)
                           else (verify_with_key L public_key inner_payload signature_b64
                                   return_payload_on_failure sid,
                                 provider_calls public_key_provider sid)))))))"

definition verify_metadata ::
  "lib \<Rightarrow> pystr \<Rightarrow> provider \<Rightarrow> bool \<Rightarrow> (exn + verdict) \<times> jvalue list" where
  "verify_metadata L s public_key_provider return_payload_on_failure =
     (if s = [] then (Inr (None, False, None), [])
      else (case public_key_provider of
              NotCallable \<Rightarrow> (Inl TypeError, [])
            | Callable f \<Rightarrow>
                verify_and_extract_metadata L s public_key_provider
                  return_payload_on_failure))"

text \<open>
  Modelled from the spec: \<open>verify_signature\<close> of \<open>crypto_utils\<close>, which is not among the
  sources. The spec: it returns false on an invalid signature and raises a typed error
  only on a key-type mismatch, and verification requires an Ed25519 key. The check of
  the signature itself is the parameter \<open>ed25519_verify\<close>.
\<close>

definition spec_verify_signature ::
  "(nat \<Rightarrow> pybytes \<Rightarrow> pybytes \<Rightarrow> bool) \<Rightarrow> key_obj \<Rightarrow> pybytes \<Rightarrow> pybytes \<Rightarrow> exn + bool" where
  "spec_verify_signature ed25519_verify k msg sg =
     (case k of
        KeyObj Ed25519PublicKey n \<Rightarrow> Inr (ed25519_verify n msg sg)
      | _ \<Rightarrow> Inl TypeError)"

text \<open>The text without its variation selectors.\<close>

definition strip_vs :: "pystr \<Rightarrow> pystr" where
  "strip_vs s = filter (\<lambda>c. \<not> is_vs c) s"

section \<open>An instance of the library interface\<close>

text \<open>
  A small executable instance of the library interface, on which the functions above
  can be run: ASCII character classes, compact JSON without escapes (keys in insertion
  order), no \<open>cbor2\<close> module, strict URL-safe base64, a \<open>dict\<close> that accepts
  dictionaries only, the proleptic Gregorian calendar, and a stand-in for the Ed25519
  signature.
\<close>

definition demo_lower :: "pystr \<Rightarrow> pystr" where
  "demo_lower s = map (\<lambda>c. if 0x41 \<le> c \<and> c \<le> 0x5A then c + 32 else c) s"

definition demo_space :: "codepoint \<Rightarrow> bool" where
  "demo_space c \<longleftrightarrow> (9 \<le> c \<and> c \<le> 13) \<or> (28 \<le> c \<and> c \<le> 32)"

definition demo_word :: "codepoint \<Rightarrow> bool" where
  "demo_word c \<longleftrightarrow>
     (0x30 \<le> c \<and> c \<le> 0x39) \<or> (0x41 \<le> c \<and> c \<le> 0x5A) \<or> c = 0x5F \<or> (0x61 \<le> c \<and> c \<le> 0x7A)"

function nat_dec :: "nat \<Rightarrow> pybytes" where
  "nat_dec n = (if n < 10 then [48 + int n] else nat_dec (n div 10) @ [48 + int (n mod 10)])"
  by pat_completeness auto
termination
  by (relation "measure id") auto

definition int_dec :: "int \<Rightarrow> pybytes" where
  "int_dec i = (if i < 0 then 0x2D # nat_dec (nat (- i)) else nat_dec (nat i))"

definition plain_char :: "int \<Rightarrow> bool" where
  "plain_char c \<longleftrightarrow> 0x20 \<le> c \<and> c \<le> 0x7E \<and> c \<noteq> 0x22 \<and> c \<noteq> 0x5C"

fun join_with :: "int \<Rightarrow> pybytes list \<Rightarrow> pybytes" where
  "join_with sep [] = []"
| "join_with sep [x] = x"
| "join_with sep (x # y # ys) = x @ sep # join_with sep (y # ys)"

fun json_text :: "jvalue \<Rightarrow> pybytes" where
  "json_text JNull = cps ''null''"
| "json_text (JBool b) = (if b then cps ''true'' else cps ''false'')"
| "json_text (JInt i) = int_dec i"
| "json_text (JStr s) = 0x22 # s @ [0x22]"
| "json_text (JList xs) = 0x5B # join_with 0x2C (map json_text xs) @ [0x5D]"
| "json_text (JDict d) =
     0x7B # join_with 0x2C (map (\<lambda>(k, v). 0x22 # k @ [0x22, 0x3A] @ json_text v) d) @ [0x7D]"

fun json_plain :: "jvalue \<Rightarrow> bool" where
  "json_plain (JStr s) = (\<forall>c \<in> set s. plain_char c)"
| "json_plain (JList xs) = (\<forall>x \<in> set xs. json_plain x)"
| "json_plain (JDict d) = (\<forall>(k, v) \<in> set d. (\<forall>c \<in> set k. plain_char c) \<and> json_plain v)"
| "json_plain _ = True"

definition demo_serialize :: "jvalue \<Rightarrow> SerializationFormat option \<Rightarrow> exn + pybytes" where
  "demo_serialize v fmt =
     (if \<not> json_plain v then Inl ValueError
      else (case fmt of
              None \<Rightarrow> Inr (json_text v)
            | Some JSON \<Rightarrow> Inr (json_text v)
            | Some JUMBF \<Rightarrow> Inr (cps ''JUMBF'' @ json_text v)
            | Some CBOR \<Rightarrow> Inl RuntimeError))"

text \<open>
  The body of a string up to the closing quote: plain ASCII characters and two-byte
  UTF-8 sequences; escapes are not covered.
\<close>

fun parse_string :: "pybytes \<Rightarrow> (pystr \<times> pybytes) option" where
  "parse_string [] = None"
| "parse_string [c] = (if c = 0x22 then Some ([], []) else None)"
| "parse_string (c # c' # cs) =
     (if c = 0x22 then Some ([], c' # cs)
      else if 0xC2 \<le> c \<and> c \<le> 0xDF \<and> 0x80 \<le> c' \<and> c' \<le> 0xBF
        then (case parse_string cs of
                None \<Rightarrow> None
              | Some (s, r) \<Rightarrow> Some (((c - 0xC0) * 64 + (c' - 0x80)) # s, r))
      else if \<not> plain_char c then None
      else (case parse_string (c' # cs) of
              None \<Rightarrow> None | Some (s, r) \<Rightarrow> Some (c # s, r)))"

fun parse_digits :: "nat \<Rightarrow> pybytes \<Rightarrow> nat \<times> pybytes" where
  "parse_digits acc [] = (acc, [])"
| "parse_digits acc (c # cs) =
     (if 0x30 \<le> c \<and> c \<le> 0x39 then parse_digits (10 * acc + nat (c - 0x30)) cs
      else (acc, c # cs))"

definition is_digit :: "int \<Rightarrow> bool" where
  "is_digit c \<longleftrightarrow> 0x30 \<le> c \<and> c \<le> 0x39"

definition parse_number :: "pybytes \<Rightarrow> (jvalue \<times> pybytes) option" where
  "parse_number bs =
     (case bs of
        [] \<Rightarrow> None
      | c # cs \<Rightarrow>
         (if c = 0x2D
          then (case cs of
                  [] \<Rightarrow> None
                | d # ds \<Rightarrow> (if is_digit d
                              then (case parse_digits 0 cs of (n, r) \<Rightarrow> Some (JInt (- int n), r))
                              else None))
          else if is_digit c then (case parse_digits 0 bs of (n, r) \<Rightarrow> Some (JInt (int n), r))
          else None))"

fun parse_value :: "nat \<Rightarrow> pybytes \<Rightarrow> (jvalue \<times> pybytes) option"
and parse_items :: "nat \<Rightarrow> pybytes \<Rightarrow> (jvalue list \<times> pybytes) option"
and parse_members :: "nat \<Rightarrow> pybytes \<Rightarrow> (pydict \<times> pybytes) option" where
  "parse_value 0 bs = None"
| "parse_value (Suc n) bs =
     (case bs of
        [] \<Rightarrow> None
      | c # cs \<Rightarrow>
         (if c = 0x22
            then (case parse_string cs of None \<Rightarrow> None | Some (s, r) \<Rightarrow> Some (JStr s, r))
          else if c = 0x5B
            then (if take 1 cs = [0x5D] then Some (JList [], drop 1 cs)
                  else (case parse_items n cs of
                          None \<Rightarrow> None | Some (xs, r) \<Rightarrow> Some (JList xs, r)))
          else if c = 0x7B
            then (if take 1 cs = [0x7D] then Some (JDict [], drop 1 cs)
                  else (case parse_members n cs of
                          None \<Rightarrow> None
                        | Some (d, r) \<Rightarrow>
                            Some (JDict (foldl (\<lambda>acc (k, v). dict_set acc k v) [] d), r)))
          else if take 4 bs = cps ''null'' then Some (JNull, drop 4 bs)
          else if take 4 bs = cps ''true'' then Some (JBool True, drop 4 bs)
          else if take 5 bs = cps ''false'' then Some (JBool False, drop 5 bs)
          else parse_number bs))"
| "parse_items 0 bs = None"
| "parse_items (Suc n) bs =
     (case parse_value n bs of
        None \<Rightarrow> None
      | Some (v, r) \<Rightarrow>
         (if take 1 r = [0x2C]
            then (case parse_items n (drop 1 r) of
                    None \<Rightarrow> None | Some (vs, r') \<Rightarrow> Some (v # vs, r'))
          else if take 1 r = [0x5D] then Some ([v], drop 1 r)
          else None))"
| "parse_members 0 bs = None"
| "parse_members (Suc n) bs =
     (if take 1 bs \<noteq> [0x22] then None
      else (case parse_string (drop 1 bs) of
              None \<Rightarrow> None
            | Some (k, r) \<Rightarrow>
               (if take 1 r \<noteq> [0x3A] then None
                else (case parse_value n (drop 1 r) of
                        None \<Rightarrow> None
                      | Some (v, r') \<Rightarrow>
                         (if take 1 r' = [0x2C]
                            then (case parse_members n (drop 1 r') of
                                    None \<Rightarrow> None
                                  | Some (d, r'') \<Rightarrow> Some ((k, v) # d, r''))
                          else if take 1 r' = [0x7D] then Some ([(k, v)], drop 1 r')
                          else None)))))"

definition demo_json_loads :: "pybytes \<Rightarrow> jvalue option" where
  "demo_json_loads bs =
     (case parse_value (2 * length bs + 2) bs of
        Some (v, []) \<Rightarrow> Some v
      | _ \<Rightarrow> None)"


text \<open>Base64 with the URL-safe alphabet; the decoder is strict.\<close>

definition b64_char :: "int \<Rightarrow> int" where
  "b64_char i =
     (if i < 26 then 0x41 + i
      else if i < 52 then 0x61 + (i - 26)
      else if i < 62 then 0x30 + (i - 52)
      else if i = 62 then 0x2D else 0x5F)"

definition b64_index :: "int \<Rightarrow> int option" where
  "b64_index c =
     (if 0x41 \<le> c \<and> c \<le> 0x5A then Some (c - 0x41)
      else if 0x61 \<le> c \<and> c \<le> 0x7A then Some (c - 0x61 + 26)
      else if 0x30 \<le> c \<and> c \<le> 0x39 then Some (c - 0x30 + 52)
      else if c = 0x2D then Some 62
      else if c = 0x5F then Some 63
      else None)"

fun demo_b64encode :: "pybytes \<Rightarrow> pybytes" where
  "demo_b64encode [] = []"
| "demo_b64encode [a] = [b64_char (a div 4), b64_char ((a mod 4) * 16), 0x3D, 0x3D]"
| "demo_b64encode [a, b] =
     [b64_char (a div 4), b64_char ((a mod 4) * 16 + b div 16), b64_char ((b mod 16) * 4), 0x3D]"
| "demo_b64encode (a # b # c # rest) =
     [b64_char (a div 4), b64_char ((a mod 4) * 16 + b div 16),
      b64_char ((b mod 16) * 4 + c div 64), b64_char (c mod 64)] @ demo_b64encode rest"

fun demo_b64decode :: "pybytes \<Rightarrow> pybytes option" where
  "demo_b64decode [] = Some []"
| "demo_b64decode [w, x, y, z] =
     (case (b64_index w, b64_index x) of
        (Some p, Some q) \<Rightarrow>
          (if y = 0x3D \<and> z = 0x3D then Some [p * 4 + q div 16]
           else (case b64_index y of
                   None \<Rightarrow> None
                 | Some r \<Rightarrow>
                    (if z = 0x3D then Some [p * 4 + q div 16, (q mod 16) * 16 + r div 4]
                     else (case b64_index z of
                             None \<Rightarrow> None
                           | Some t \<Rightarrow>
                               Some [p * 4 + q div 16, (q mod 16) * 16 + r div 4,
                                     (r mod 4) * 64 + t]))))
      | _ \<Rightarrow> None)"
| "demo_b64decode (w # x # y # z # rest) =
     (case (b64_index w, b64_index x, b64_index y, b64_index z, demo_b64decode rest) of
        (Some p, Some q, Some r, Some t, Some bs) \<Rightarrow>
          Some ([p * 4 + q div 16, (q mod 16) * 16 + r div 4, (r mod 4) * 64 + t] @ bs)
      | _ \<Rightarrow> None)"
| "demo_b64decode _ = None"

text \<open>A stand-in for the signature scheme: a tag of the key identifier and the message.\<close>

definition demo_tag :: "nat \<Rightarrow> pybytes \<Rightarrow> pybytes" where
  "demo_tag n msg =
     [int n mod 256, sum_list msg mod 256, int (length msg) mod 256,
      sum_list (map (\<lambda>(i, b). int i * b) (enumerate 1 msg)) mod 256]"

definition demo_sign :: "key_obj \<Rightarrow> pybytes \<Rightarrow> exn + pybytes" where
  "demo_sign k msg =
     (case k of KeyObj Ed25519PrivateKey n \<Rightarrow> Inr (demo_tag n msg) | _ \<Rightarrow> Inl TypeError)"

definition demo_ed25519_verify :: "nat \<Rightarrow> pybytes \<Rightarrow> pybytes \<Rightarrow> bool" where
  "demo_ed25519_verify n msg sg \<longleftrightarrow> sg = demo_tag n msg"

text \<open>Dates: days since 1970-01-01 and back, in the proleptic Gregorian calendar.\<close>

definition days_from_civil :: "int \<Rightarrow> int \<Rightarrow> int \<Rightarrow> int" where
  "days_from_civil y m d =
     (let y' = (if m \<le> 2 then y - 1 else y);
          era = y' div 400;
          yoe = y' - era * 400;
          doy = (153 * (if m > 2 then m - 3 else m + 9) + 2) div 5 + d - 1;
          doe = yoe * 365 + yoe div 4 - yoe div 100 + doy
      in era * 146097 + doe - 719468)"

definition civil_from_days :: "int \<Rightarrow> int \<times> int \<times> int" where
  "civil_from_days z0 =
     (let z = z0 + 719468;
          era = z div 146097;
          doe = z - era * 146097;
          yoe = (doe - doe div 1460 + doe div 36524 - doe div 146096) div 365;
          doy = doe - (365 * yoe + yoe div 4 - yoe div 100);
          mp = (5 * doy + 2) div 153;
          d = doy - (153 * mp + 2) div 5 + 1;
          m = (if mp < 10 then mp + 3 else mp - 9);
          y = yoe + era * 400 + (if m \<le> 2 then 1 else 0)
      in (y, m, d))"

definition to_micros :: "pydatetime \<Rightarrow> int" where
  "to_micros dt =
     ((days_from_civil (year dt) (month dt) (day dt) * 86400 + hour dt * 3600
        + minute dt * 60 + second dt) * 1000000 + microsecond dt)"

definition of_micros :: "int \<Rightarrow> pydatetime" where
  "of_micros x =
     (let us = x mod 1000000; secs = x div 1000000;
          sod = secs mod 86400; days = secs div 86400
      in (case civil_from_days days of
            (y, m, d) \<Rightarrow>
              \<lparr>year = y, month = m, day = d, hour = sod div 3600,
               minute = (sod mod 3600) div 60, second = sod mod 60, microsecond = us,
               tzinfo = Some 0\<rparr>))"

definition demo_gmtime :: "int \<Rightarrow> exn + pydatetime" where
  "demo_gmtime ts =
     (let dt = of_micros (ts * 1000000) in
      if year dt < 1 \<or> 9999 < year dt then Inl ValueError else Inr dt)"

definition demo_astimezone_utc :: "pydatetime \<Rightarrow> exn + pydatetime" where
  "demo_astimezone_utc dt =
     (let r = of_micros (to_micros dt - (case tzinfo dt of None \<Rightarrow> 0 | Some off \<Rightarrow> off)) in
      if year r < 1 \<or> 9999 < year r then Inl OverflowError else Inr r)"

definition digits2 :: "int \<Rightarrow> pystr" where
  "digits2 n = [48 + (n div 10) mod 10, 48 + n mod 10]"

definition digits4 :: "int \<Rightarrow> pystr" where
  "digits4 n = digits2 (n div 100) @ digits2 (n mod 100)"

definition demo_strftime :: "pydatetime \<Rightarrow> pystr" where
  "demo_strftime dt =
     digits4 (year dt) @ [0x2D] @ digits2 (month dt) @ [0x2D] @ digits2 (day dt) @ [0x54]
       @ digits2 (hour dt) @ [0x3A] @ digits2 (minute dt) @ [0x3A] @ digits2 (second dt)
       @ [0x5A]"

text \<open>
  The parser accepts the shape \<open>YYYY-MM-DDTHH:MM:SS\<close> with an optional \<open>+00:00\<close>.
\<close>

definition num_of :: "pystr \<Rightarrow> int option" where
  "num_of s = (if s \<noteq> [] \<and> (\<forall>c \<in> set s. is_digit c)
               then Some (int (fst (parse_digits 0 s))) else None)"

definition demo_fromisoformat :: "pystr \<Rightarrow> pydatetime option" where
  "demo_fromisoformat s =
     (if (length s = 19 \<or> (length s = 25 \<and> drop 19 s = cps ''+00:00''))
         \<and> s ! 4 = 0x2D \<and> s ! 7 = 0x2D \<and> s ! 10 = 0x54 \<and> s ! 13 = 0x3A \<and> s ! 16 = 0x3A
      then (case (num_of (slice 0 4 s), num_of (slice 5 7 s), num_of (slice 8 10 s),
                  num_of (slice 11 13 s), num_of (slice 14 16 s), num_of (slice 17 19 s)) of
              (Some y, Some m, Some d, Some hh, Some mm, Some ss) \<Rightarrow>
                (if 1 \<le> y \<and> 1 \<le> m \<and> m \<le> 12 \<and> 1 \<le> d \<and> d \<le> 31 \<and> hh < 24 \<and> mm < 60 \<and> ss < 60
                 then Some \<lparr>year = y, month = m, day = d, hour = hh, minute = mm,
                            second = ss, microsecond = 0,
                            tzinfo = (if length s = 25 then Some 0 else None)\<rparr>
                 else None)
            | _ \<Rightarrow> None)
      else None)"

definition demo_lib :: lib where
  "demo_lib =
     \<lparr>str_lower = demo_lower, re_space = demo_space, re_word = demo_word,
      serialize_payload = demo_serialize, sign_payload = demo_sign,
      verify_signature = spec_verify_signature demo_ed25519_verify,
      json_loads = demo_json_loads, cbor2 = None,
      b64encode = demo_b64encode, b64decode = demo_b64decode,
      dict_of_other = (\<lambda>v. Inl TypeError),
      fromisoformat = demo_fromisoformat, gmtime = demo_gmtime,
      astimezone_utc = demo_astimezone_utc, strftime = demo_strftime\<rparr>"

definition demo_args :: embed_args where
  "demo_args =
     \<lparr>text_arg = cps ''Hello World'', private_key = KeyObj Ed25519PrivateKey 7,
      signer_id = cps ''demo'', metadata_format = cps ''basic'',
      serialization_format = JSON, model_id = Some (cps ''m1''),
      timestamp = Some (TsStr (cps ''2024-01-01T00:00:00Z'')), generationID = None,
      target = TargetNone, custom_metadata = None, claim_generator = None, actions = None,
      ai_info = None, custom_claims = None, distribute_across_targets = False\<rparr>"

definition demo_provider :: provider where
  "demo_provider = Callable (\<lambda>sid. Inr (Some (KeyObj Ed25519PublicKey 7)))"

text \<open>The envelope that \<open>embed_metadata\<close> builds for \<open>demo_args\<close>, and its payload.\<close>

definition demo_envelope :: pybytes where
  \<open>demo_envelope = cps ''{"payload":{"signer_id":"demo","timestamp":"2024-01-01T00:00:00Z","format":"basic","model_id":"m1"},"signature":"Bz1Yng","signer_id":"demo","format":"basic"}''\<close>

definition demo_payload :: pydict where
  "demo_payload =
     [(cps ''signer_id'', JStr (cps ''demo'')),
      (cps ''timestamp'', JStr (cps ''2024-01-01T00:00:00Z'')),
      (cps ''format'', JStr (cps ''basic'')),
      (cps ''model_id'', JStr (cps ''m1''))]"

definition selectors_of :: "pybytes \<Rightarrow> codepoint list" where
  "selectors_of bs = map (the \<circ> to_variation_selector) bs"


text \<open>
  An envelope whose signature is the one-character string U+00E9, in UTF-8; a resolver
  that returns an RSA public key; arguments for a manifest carried as JUMBF; and arguments
  for the distributed mode, with a host text of 160 letters and every character a target.
\<close>

definition bad_signature_envelope :: pybytes where
  \<open>bad_signature_envelope =
     cps ''{"payload":{},"signature":"'' @ [0xC3, 0xA9]
       @ cps ''","signer_id":"demo","format":"basic"}''\<close>

definition rsa_provider :: provider where
  "rsa_provider = Callable (\<lambda>sid. Inr (Some (KeyObj RSAPublicKey 1)))"

definition demo_manifest_args :: embed_args where
  "demo_manifest_args =
     demo_args\<lparr>text_arg := cps ''Hello, World'', metadata_format := cps ''manifest'',
                serialization_format := JUMBF, target := TargetStr (cps ''Punctuation''),
                timestamp := Some (TsInt 1709210096),
                claim_generator := Some (cps ''gen/1.0''),
                actions := Some [JDict [(cps ''action'', JStr (cps ''created''))]],
                custom_claims := Some [(cps ''n'', JInt 3)]\<rparr>"

definition demo_distributed_args :: embed_args where
  "demo_distributed_args =
     demo_args\<lparr>text_arg := replicate 160 0x61, target := TargetEnum ALL_CHARACTERS,
                distribute_across_targets := True\<rparr>"

section \<open>Properties of the codec\<close>

lemmas vs_consts =
  VARIATION_SELECTOR_START_def VARIATION_SELECTOR_END_def
  VARIATION_SELECTOR_SUPPLEMENT_START_def VARIATION_SELECTOR_SUPPLEMENT_END_def

lemma from_vs_None_iff: "from_variation_selector c = None \<longleftrightarrow> \<not> is_vs c"
  by (simp add: from_variation_selector_def is_vs_def vs_consts)

lemma to_vs_Some_iff: "(\<exists>c. to_variation_selector b = Some c) \<longleftrightarrow> is_byte b"
  by (auto simp: to_variation_selector_def is_byte_def)

lemma to_vs_is_vs: "to_variation_selector b = Some c \<Longrightarrow> is_vs c"
  by (auto simp: to_variation_selector_def is_vs_def vs_consts split: if_splits)

lemma from_to_vs: "to_variation_selector b = Some c \<Longrightarrow> from_variation_selector c = Some b"
  by (auto simp: to_variation_selector_def from_variation_selector_def vs_consts
           split: if_splits)

lemma extract_loop_acc:
  "acc \<noteq> [] \<Longrightarrow> extract_loop acc s = acc @ List.map_filter from_variation_selector (takeWhile is_vs s)"
proof (induction s arbitrary: acc)
  case Nil
  then show ?case by simp
next
  case (Cons c s)
  show ?case
  proof (cases "from_variation_selector c")
    case None
    then have "\<not> is_vs c" by (simp add: from_vs_None_iff)
    with None Cons.prems show ?thesis by simp
  next
    case (Some b)
    then have "is_vs c" using from_vs_None_iff [of c] by simp
    with Some Cons.IH [of "acc @ [b]"] show ?thesis by simp
  qed
qed

lemma extract_loop_empty:
  "extract_loop [] s =
     List.map_filter from_variation_selector (takeWhile is_vs (dropWhile (\<lambda>c. \<not> is_vs c) s))"
proof (induction s)
  case Nil
  then show ?case by simp
next
  case (Cons c s)
  show ?case
  proof (cases "from_variation_selector c")
    case None
    then have "\<not> is_vs c" by (simp add: from_vs_None_iff)
    with None Cons.IH show ?thesis by simp
  next
    case (Some b)
    then have "is_vs c" using from_vs_None_iff [of c] by simp
    with Some extract_loop_acc [of "[b]" s] show ?thesis by simp
  qed
qed

lemma extract_bytes_char:
  "extract_bytes text =
     List.map_filter from_variation_selector (takeWhile is_vs (dropWhile (\<lambda>c. \<not> is_vs c) text))"
  by (simp add: extract_bytes_def Let_def extract_loop_empty)

lemma selectors_of_bytes:
  "\<forall>b \<in> set B. is_byte b \<Longrightarrow>
     bytes_to_variation_selectors B = Inr (map (the \<circ> to_variation_selector) B)"
proof -
  assume a: "\<forall>b \<in> set B. is_byte b"
  then have "filter (\<lambda>s. s \<noteq> None) (map to_variation_selector B) = map to_variation_selector B"
    using to_vs_Some_iff by (induction B) auto
  then show ?thesis by (simp add: bytes_to_variation_selectors_def Let_def)
qed

lemma selectors_all_vs:
  "bytes_to_variation_selectors B = Inr sel \<Longrightarrow> \<forall>c \<in> set sel. is_vs c"
proof -
  assume a: "bytes_to_variation_selectors B = Inr sel"
  have "\<forall>c \<in> set (map the (filter (\<lambda>s. s \<noteq> None) (map to_variation_selector B))). is_vs c"
    by (induction B) (auto dest: to_vs_is_vs)
  moreover from a have "sel = map the (filter (\<lambda>s. s \<noteq> None) (map to_variation_selector B))"
    by (simp add: bytes_to_variation_selectors_def Let_def split: if_splits)
  ultimately show ?thesis by (simp only:)
qed

lemma selectors_length:
  "bytes_to_variation_selectors B = Inr sel \<Longrightarrow> length sel = length B"
  by (auto simp: bytes_to_variation_selectors_def Let_def split: if_splits)

lemma selectors_decode:
  "\<forall>b \<in> set B. is_byte b \<Longrightarrow>
     List.map_filter from_variation_selector (map (the \<circ> to_variation_selector) B) = B"
proof (induction B)
  case Nil
  then show ?case by simp
next
  case (Cons b B)
  then obtain c where c: "to_variation_selector b = Some c"
    using to_vs_Some_iff [of b] by auto
  with Cons from_to_vs [OF c] show ?case by simp
qed

lemma extract_after_anchor:
  assumes "\<forall>b \<in> set B. is_byte b" and "\<not> is_vs X"
  shows "\<exists>sel. bytes_to_variation_selectors B = Inr sel \<and> extract_bytes (X # sel) = B"
proof -
  let ?sel = "map (the \<circ> to_variation_selector) B"
  have s: "bytes_to_variation_selectors B = Inr ?sel" using assms(1) by (rule selectors_of_bytes)
  have v: "\<forall>c \<in> set ?sel. is_vs c" using selectors_all_vs [OF s] .
  then have t: "takeWhile is_vs ?sel = ?sel" by (simp add: takeWhile_eq_all_conv)
  have "dropWhile (\<lambda>c. \<not> is_vs c) ?sel = ?sel"
    using v by (cases ?sel) auto
  then have d: "dropWhile (\<lambda>c. \<not> is_vs c) (X # ?sel) = ?sel"
    using assms(2) by simp
  have "extract_bytes (X # ?sel) = B"
    unfolding extract_bytes_char d t using assms(1) by (rule selectors_decode)
  with s show ?thesis by blast
qed

text \<open>
  C2: bytes below 16 go to U+FE00 + b, bytes from 16 to 255 go to U+E0100 + (b - 16),
  decoding the selector of a byte gives the byte back, and every code point outside the
  two blocks decodes to \<open>None\<close>.
\<close>

theorem codec_roundtrip:
  "(0 \<le> b \<and> b < 16 \<longrightarrow> to_variation_selector b = Some (0xFE00 + b))
   \<and> (16 \<le> b \<and> b < 256 \<longrightarrow> to_variation_selector b = Some (0xE0100 + (b - 16)))
   \<and> (0 \<le> b \<and> b \<le> 255 \<longrightarrow>
        (\<exists>c. to_variation_selector b = Some c \<and> from_variation_selector c = Some b))
   \<and> (\<not> (0xFE00 \<le> cp \<and> cp \<le> 0xFE0F) \<and> \<not> (0xE0100 \<le> cp \<and> cp \<le> 0xE01EF)
        \<longrightarrow> from_variation_selector cp = None)"
  by (auto simp: to_variation_selector_def from_variation_selector_def vs_consts)

theorem codec_roundtrip_witness:
  "to_variation_selector 7 = Some 0xFE07
   \<and> to_variation_selector 200 = Some 0xE01B8
   \<and> from_variation_selector 0xE01B8 = Some 200
   \<and> from_variation_selector 0x41 = None"
  using codec_roundtrip [of 7 "0x41"] codec_roundtrip [of 200 "0x41"]
  by (simp add: from_variation_selector_def vs_consts)

text \<open>
  C3: \<open>extract_bytes\<close> skips the code points that are not variation selectors at the
  start, collects one byte for each variation selector that follows, and stops at the
  first code point that is not one; so for a byte string \<open>B\<close> and an anchor \<open>X\<close> that is not
  a variation selector, extracting from \<open>X\<close> followed by the selectors of \<open>B\<close> gives \<open>B\<close>.
\<close>

theorem extract_bytes_after_anchor:
  "extract_bytes s =
     List.map_filter from_variation_selector
       (takeWhile is_vs (dropWhile (\<lambda>c. \<not> is_vs c) s))
   \<and> ((\<forall>b \<in> set B. 0 \<le> b \<and> b < 256) \<and> \<not> is_vs X \<longrightarrow>
        (\<exists>sel. bytes_to_variation_selectors B = Inr sel \<and> extract_bytes (X # sel) = B))"
  using extract_bytes_char [of s] extract_after_anchor [of B X]
  by (simp add: is_byte_def)

theorem extract_bytes_after_anchor_witness:
  "\<not> is_vs 0x58
   \<and> bytes_to_variation_selectors [0, 15, 16, 255] = Inr [0xFE00, 0xFE0F, 0xE0100, 0xE01EF]
   \<and> extract_bytes [0x58, 0xFE00, 0xFE0F, 0xE0100, 0xE01EF] = [0, 15, 16, 255]
   \<and> extract_bytes [0x20, 0x58, 0xFE07, 0x59, 0xFE08] = [7]"
proof -
  have b: "\<forall>b \<in> set [0, 15, 16, 255 :: int]. 0 \<le> b \<and> b < 256" by simp
  have x: "\<not> is_vs 0x58" by (simp add: is_vs_def)
  have s: "bytes_to_variation_selectors [0, 15, 16, 255] = Inr [0xFE00, 0xFE0F, 0xE0100, 0xE01EF]"
    by (simp add: bytes_to_variation_selectors_def to_variation_selector_def vs_consts)
  from extract_bytes_after_anchor [of "[0x20, 0x58, 0xFE07, 0x59, 0xFE08]" "[0, 15, 16, 255]" "0x58"] b x s
  show ?thesis
    by (simp add: is_vs_def from_variation_selector_def vs_consts)
qed

section \<open>Embedding keeps the host text\<close>

lemma finditer_starts_sorted: "sorted_wrt (<) (finditer_starts L t s)"
  unfolding finditer_starts_def by (rule sorted_wrt_filter) (simp add: sorted_wrt_upt)

lemma finditer_starts_bound: "i \<in> set (finditer_starts L t s) \<Longrightarrow> i < length s"
  by (simp add: finditer_starts_def)

lemma sort_strict_sorted: "sorted_wrt (<) (xs :: nat list) \<Longrightarrow> sort xs = xs"
  by (simp add: sorted_sort_id strict_sorted_iff)

lemma find_targets_cases:
  "find_targets L s tgt = Inr tis \<Longrightarrow> \<exists>t. tis = finditer_starts L t s"
  by (cases tgt) (auto split: option.splits)

lemma drop_split_at:
  assumes "l \<le> t" and "t < length s"
  shows "drop l s = slice l t s @ [s ! t] @ drop (t + 1) s"
proof -
  have "drop l s = take (t - l) (drop l s) @ drop (t - l) (drop l s)"
    by (simp only: append_take_drop_id)
  also have "drop (t - l) (drop l s) = drop t s"
    using assms(1) by simp
  also have "drop t s = s ! t # drop (Suc t) s"
    using assms(2) by (simp add: Cons_nth_drop_Suc)
  finally show ?thesis by (simp add: slice_def)
qed

lemma distribute_loop_shape:
  assumes "sorted_wrt (<) tis" and "\<forall>t \<in> set tis. l \<le> t \<and> t < length s"
  shows "\<exists>r. distribute_loop s sel tis l i parts = Inr (parts @ r)
              \<and> subseq (drop l s) r
              \<and> ((\<forall>c \<in> set sel. is_vs c) \<longrightarrow> strip_vs r = strip_vs (drop l s))"
  using assms
proof (induction tis arbitrary: l i parts)
  case Nil
  then show ?case by simp
next
  case (Cons t rest)
  have lt: "l \<le> t" and tl: "t < length s" using Cons.prems(2) by simp_all
  show ?case
  proof (cases "i < length sel")
    case False
    then show ?thesis by simp
  next
    case True
    have sr: "sorted_wrt (<) rest" using Cons.prems(1) by simp
    have br: "\<forall>u \<in> set rest. t + 1 \<le> u \<and> u < length s"
      using Cons.prems by auto
    let ?p = "parts @ slice l t s @ [s ! t] @ [sel ! i]"
    from Cons.IH [OF sr br, of "i + 1" ?p]
    obtain r where r: "distribute_loop s sel rest (t + 1) (i + 1) ?p = Inr (?p @ r)"
      and sub: "subseq (drop (t + 1) s) r"
      and st: "(\<forall>c \<in> set sel. is_vs c) \<longrightarrow> strip_vs r = strip_vs (drop (t + 1) s)"
      by blast
    let ?r = "slice l t s @ [s ! t] @ [sel ! i] @ r"
    have d: "drop l s = slice l t s @ [s ! t] @ drop (t + 1) s"
      using lt tl by (rule drop_split_at)
    have 1: "distribute_loop s sel (t # rest) l i parts = Inr (parts @ ?r)"
      using True tl r by simp
    have "subseq (drop (t + 1) s) ([sel ! i] @ r)"
      using sub by (rule subseq_drop_many)
    then have "subseq (slice l t s @ [s ! t] @ drop (t + 1) s) ?r"
      by (simp only: subseq_append')
    then have 2: "subseq (drop l s) ?r" using d by simp
    have 3: "(\<forall>c \<in> set sel. is_vs c) \<longrightarrow> strip_vs ?r = strip_vs (drop l s)"
    proof
      assume v: "\<forall>c \<in> set sel. is_vs c"
      then have "is_vs (sel ! i)" using True by simp
      moreover have "strip_vs r = strip_vs (drop (t + 1) s)" using st v by simp
      ultimately have "strip_vs ?r = strip_vs (slice l t s @ [s ! t] @ drop (t + 1) s)"
        by (simp add: strip_vs_def)
      then show "strip_vs ?r = strip_vs (drop l s)" using d by simp
    qed
    from 1 2 3 show ?thesis by blast
  qed
qed

lemma embed_splice_preserves:
  assumes "embed_splice L s tgt dist sel = Inr r"
  shows "subseq s r \<and> ((\<forall>c \<in> set sel. is_vs c) \<longrightarrow> strip_vs r = strip_vs s)"
proof (cases "sel = []")
  case True
  with assms show ?thesis by (simp add: embed_splice_def)
next
  case False
  let ?tg = "if tgt \<noteq> TargetNone then tgt else TargetEnum WHITESPACE"
  from assms False obtain tis where f: "find_targets L s ?tg = Inr tis"
    by (auto simp: embed_splice_def split: sum.splits)
  then obtain t where t: "tis = finditer_starts L t s"
    using find_targets_cases by blast
  from assms False f have ne: "tis \<noteq> []"
    by (auto simp: embed_splice_def split: if_splits)
  show ?thesis
  proof (cases dist)
    case True
    have so: "sort tis = tis" unfolding t using finditer_starts_sorted by (rule sort_strict_sorted)
    from assms False f ne True so
    have dl: "distribute_loop s sel tis 0 0 [] = Inr r"
      by (auto simp: embed_splice_def split: if_splits)
    have "\<forall>u \<in> set tis. 0 \<le> u \<and> u < length s"
      unfolding t using finditer_starts_bound by auto
    from distribute_loop_shape [OF _ this, of sel 0 "[]"] finditer_starts_sorted [of L t s] dl
    show ?thesis unfolding t by auto
  next
    case False
    from assms \<open>sel \<noteq> []\<close> f ne False
    have r: "r = take (hd tis + 1) s @ sel @ drop (hd tis + 1) s"
      by (auto simp: embed_splice_def Let_def split: if_splits)
    have "subseq (drop (hd tis + 1) s) (sel @ drop (hd tis + 1) s)"
      by (rule subseq_drop_many) simp
    then have "subseq (take (hd tis + 1) s @ drop (hd tis + 1) s) r"
      unfolding r by (simp only: subseq_append')
    then have "subseq s r" by simp
    moreover have "(\<forall>c \<in> set sel. is_vs c) \<longrightarrow> strip_vs r = strip_vs s"
    proof
      assume "\<forall>c \<in> set sel. is_vs c"
      then have "strip_vs sel = []" by (simp add: strip_vs_def)
      then have "strip_vs r = strip_vs (take (hd tis + 1) s) @ strip_vs (drop (hd tis + 1) s)"
        unfolding r by (simp add: strip_vs_def)
      also have "\<dots> = strip_vs (take (hd tis + 1) s @ drop (hd tis + 1) s)"
        by (simp only: strip_vs_def filter_append)
      finally show "strip_vs r = strip_vs s" by (simp only: append_take_drop_id)
    qed
    ultimately show ?thesis by blast
  qed
qed

lemma embed_selector_chars_vs:
  "embed_selector_chars L a = Inr sel \<Longrightarrow> \<forall>c \<in> set sel. is_vs c"
  by (auto simp: embed_selector_chars_def split: sum.splits dest: selectors_all_vs)


lemma demo_embed_eval:
  "embed_metadata demo_lib demo_args
     = Inr (cps ''Hello '' @ selectors_of demo_envelope @ cps ''World'')"
  by code_simp

text \<open>
  C4, as stated: removing the variation selectors from the result gives the original
  text. It fails for a host text that has a variation selector of its own: here the
  text is \<open>a\<close>, U+FE0F, a space and \<open>b\<close>, the space is the anchor, and stripping the
  result gives \<open>a b\<close>.
\<close>

theorem embed_strip_counterexample:
  "\<not> isl (embed_metadata demo_lib (demo_args\<lparr>text_arg := [0x61, 0xFE0F, 0x20, 0x62]\<rparr>))
   \<and> find_targets demo_lib [0x61, 0xFE0F, 0x20, 0x62] TargetNone = Inr [2]
   \<and> strip_vs (projr (embed_metadata demo_lib
         (demo_args\<lparr>text_arg := [0x61, 0xFE0F, 0x20, 0x62]\<rparr>))) = [0x61, 0x20, 0x62]
   \<and> strip_vs (projr (embed_metadata demo_lib
         (demo_args\<lparr>text_arg := [0x61, 0xFE0F, 0x20, 0x62]\<rparr>))) \<noteq> [0x61, 0xFE0F, 0x20, 0x62]"
  by code_simp

text \<open>
  C4, amended: whenever \<open>embed_metadata\<close> succeeds, in either mode, the original text
  is a subsequence of the result (every code point remains, in order), and removing
  the variation selectors from the result gives the original text with its own
  variation selectors removed; that is the original text itself when it has none.
\<close>

theorem embed_preserves_text:
  assumes "embed_metadata L a = Inr r"
  shows "subseq (text_arg a) r
         \<and> strip_vs r = strip_vs (text_arg a)
         \<and> ((\<forall>c \<in> set (text_arg a). \<not> is_vs c) \<longrightarrow> strip_vs r = text_arg a)"
proof -
  from assms obtain sel where sel: "embed_selector_chars L a = Inr sel"
    and sp: "embed_splice L (text_arg a) (target a) (distribute_across_targets a) sel = Inr r"
    by (auto simp: embed_metadata_def split: sum.splits)
  have v: "\<forall>c \<in> set sel. is_vs c" using sel by (rule embed_selector_chars_vs)
  from embed_splice_preserves [OF sp] v
  have 1: "subseq (text_arg a) r" and 2: "strip_vs r = strip_vs (text_arg a)" by simp_all
  have "(\<forall>c \<in> set (text_arg a). \<not> is_vs c) \<longrightarrow> strip_vs (text_arg a) = text_arg a"
    by (simp add: strip_vs_def)
  with 1 2 show ?thesis by simp
qed

theorem embed_preserves_text_witness:
  "embed_metadata demo_lib demo_args
     = Inr (cps ''Hello '' @ selectors_of demo_envelope @ cps ''World'')
   \<and> subseq (cps ''Hello World'') (cps ''Hello '' @ selectors_of demo_envelope @ cps ''World'')
   \<and> strip_vs (cps ''Hello '' @ selectors_of demo_envelope @ cps ''World'') = cps ''Hello World''"
proof -
  have t: "text_arg demo_args = cps ''Hello World''" by (simp add: demo_args_def)
  have n: "\<forall>c \<in> set (cps ''Hello World''). \<not> is_vs c" by code_simp
  note w = embed_preserves_text [OF demo_embed_eval, unfolded t]
  from w have "subseq (cps ''Hello World'') (cps ''Hello '' @ selectors_of demo_envelope @ cps ''World'')"
    by (rule conjunct1)
  moreover from w n
  have "strip_vs (cps ''Hello '' @ selectors_of demo_envelope @ cps ''World'') = cps ''Hello World''"
    by blast
  ultimately show ?thesis using demo_embed_eval by blast
qed

section \<open>Capacity errors, the envelope, and the empty text\<close>

lemma embedding_target_same:
  "find_targets L s (if tgt \<noteq> TargetNone then tgt else TargetEnum WHITESPACE)
     = find_targets L s tgt"
  by (cases tgt) simp_all

lemma validated_target_finds:
  "validate_target L tgt = None \<Longrightarrow> \<exists>t. find_targets L s tgt = Inr (finditer_starts L t s)"
  by (cases tgt) (auto split: option.splits)

lemma embed_selector_chars_validated:
  "embed_selector_chars L a = Inr sel \<Longrightarrow> validate_target L (target a) = None"
  by (auto simp: embed_selector_chars_def embed_outer_def embed_payload_def embed_validate_def
           split: sum.splits option.splits if_splits)

lemma finditer_starts_empty: "finditer_starts L t [] = []"
  by (simp add: finditer_starts_def)

text \<open>
  C5: once the selectors are there (validation, signing and serialization succeeded and
  gave at least one byte), \<open>embed_metadata\<close> raises ValueError when the target policy
  matches no position of the host text, in particular for the empty text, and, in the
  distributed mode, when there are fewer targets than selectors. An exception is the
  value \<open>Inl\<close>, which carries no text: a failed call returns no modified text.
\<close>

theorem embed_capacity_errors:
  assumes "embed_selector_chars L a = Inr sel" and "sel \<noteq> []"
  shows "(find_targets L (text_arg a) (target a) = Inr [] \<longrightarrow>
            embed_metadata L a = Inl ValueError)
         \<and> (text_arg a = [] \<longrightarrow> embed_metadata L a = Inl ValueError)
         \<and> (\<forall>tis. distribute_across_targets a
                  \<and> find_targets L (text_arg a) (target a) = Inr tis
                  \<and> length tis < length sel \<longrightarrow>
               embed_metadata L a = Inl ValueError)"
proof -
  have e: "embed_metadata L a
             = embed_splice L (text_arg a) (target a) (distribute_across_targets a) sel"
    using assms(1) by (simp add: embed_metadata_def)
  have 1: "find_targets L (text_arg a) (target a) = Inr [] \<longrightarrow>
             embed_metadata L a = Inl ValueError"
    using assms(2) by (simp add: e embed_splice_def embedding_target_same)
  have "text_arg a = [] \<longrightarrow> find_targets L (text_arg a) (target a) = Inr []"
    using validated_target_finds [OF embed_selector_chars_validated [OF assms(1)], of "[]"]
    by (auto simp: finditer_starts_empty)
  with 1 have 2: "text_arg a = [] \<longrightarrow> embed_metadata L a = Inl ValueError"
    by blast
  have 3: "\<forall>tis. distribute_across_targets a
                  \<and> find_targets L (text_arg a) (target a) = Inr tis
                  \<and> length tis < length sel \<longrightarrow>
               embed_metadata L a = Inl ValueError"
    using assms(2) by (simp add: e embed_splice_def embedding_target_same)
  from 1 2 3 show ?thesis by blast
qed

lemma demo_no_space_selectors:
  "embed_selector_chars demo_lib (demo_args\<lparr>text_arg := cps ''HelloWorld''\<rparr>)
     = Inr (selectors_of demo_envelope)"
  by code_simp

lemma demo_empty_selectors:
  "embed_selector_chars demo_lib (demo_args\<lparr>text_arg := []\<rparr>)
     = Inr (selectors_of demo_envelope)"
  by code_simp

lemma demo_distribute_selectors:
  "embed_selector_chars demo_lib (demo_args\<lparr>distribute_across_targets := True\<rparr>)
     = Inr (selectors_of demo_envelope)"
  by code_simp

lemma demo_selectors_length: "1 < length (selectors_of demo_envelope)"
  by code_simp

theorem embed_capacity_errors_witness:
  "embed_metadata demo_lib (demo_args\<lparr>text_arg := cps ''HelloWorld''\<rparr>) = Inl ValueError
   \<and> embed_metadata demo_lib (demo_args\<lparr>text_arg := []\<rparr>) = Inl ValueError
   \<and> find_targets demo_lib (cps ''Hello World'') TargetNone = Inr [5]
   \<and> embed_metadata demo_lib (demo_args\<lparr>distribute_across_targets := True\<rparr>)
       = Inl ValueError"
proof -
  have ne: "selectors_of demo_envelope \<noteq> []"
    using demo_selectors_length by auto
  have f1: "find_targets demo_lib (cps ''HelloWorld'') TargetNone = Inr []" by code_simp
  have f3: "find_targets demo_lib (cps ''Hello World'') TargetNone = Inr [5]" by code_simp
  have 1: "embed_metadata demo_lib (demo_args\<lparr>text_arg := cps ''HelloWorld''\<rparr>) = Inl ValueError"
    using embed_capacity_errors [OF demo_no_space_selectors ne] f1
    by (simp add: demo_args_def)
  have 2: "embed_metadata demo_lib (demo_args\<lparr>text_arg := []\<rparr>) = Inl ValueError"
    using embed_capacity_errors [OF demo_empty_selectors ne] by simp
  have 3: "embed_metadata demo_lib (demo_args\<lparr>distribute_across_targets := True\<rparr>)
             = Inl ValueError"
    using embed_capacity_errors [OF demo_distribute_selectors ne] f3 demo_selectors_length
    by (simp add: demo_args_def)
  from 1 2 f3 3 show ?thesis by blast
qed

lemma cps_distinct:
  "cps ''signer_id'' \<noteq> cps ''model_id''" "cps ''signer_id'' \<noteq> cps ''generationID''"
  "cps ''signer_id'' \<noteq> cps ''custom_metadata''" "cps ''signer_id'' \<noteq> cps ''manifest''"
  "cps ''signer_id'' \<noteq> cps ''timestamp''" "cps ''signer_id'' \<noteq> cps ''format''"
  "cps ''format'' \<noteq> cps ''model_id''" "cps ''format'' \<noteq> cps ''generationID''"
  "cps ''format'' \<noteq> cps ''custom_metadata''" "cps ''format'' \<noteq> cps ''manifest''"
  "cps ''format'' \<noteq> cps ''timestamp''" "cps ''format'' \<noteq> cps ''signer_id''"
  "cps ''payload'' \<noteq> cps ''signature''" "cps ''payload'' \<noteq> cps ''signer_id''"
  "cps ''payload'' \<noteq> cps ''format''" "cps ''signature'' \<noteq> cps ''signer_id''"
  "cps ''signature'' \<noteq> cps ''format''" "cps ''signature'' \<noteq> cps ''payload''"
  "cps ''signer_id'' \<noteq> cps ''payload''" "cps ''signer_id'' \<noteq> cps ''signature''"
  "cps ''format'' \<noteq> cps ''payload''" "cps ''format'' \<noteq> cps ''signature''"
  "cps ''basic'' \<noteq> cps ''manifest''"
  by (simp_all add: cps_def)

lemma dict_get_set: "dict_get (dict_set d k v) k' = (if k' = k then Some v else dict_get d k')"
  by (simp add: dict_get_def dict_set_def update_conv')

lemma basic_payload_fields:
  "dict_get (basic_payload a ts) (cps ''signer_id'') = Some (JStr (signer_id a))"
  "dict_get (basic_payload a ts) (cps ''format'') = Some (JStr (metadata_format a))"
  by (simp_all add: basic_payload_def Let_def dict_get_set cps_distinct)
     (simp_all add: dict_get_def cps_distinct)

lemma manifest_payload_fields:
  "dict_get (manifest_payload a ts) (cps ''signer_id'') = Some (JStr (signer_id a))"
  "dict_get (manifest_payload a ts) (cps ''format'') = Some (JStr (metadata_format a))"
  by (simp_all add: manifest_payload_def dict_get_set cps_distinct)
     (simp_all add: dict_get_def cps_distinct)

lemma embed_payload_fields:
  assumes "embed_payload L a = Inr p"
  shows "dict_get p (cps ''signer_id'') = Some (JStr (signer_id a))
         \<and> dict_get p (cps ''format'') = Some (JStr (metadata_format a))
         \<and> (metadata_format a = cps ''basic'' \<or> metadata_format a = cps ''manifest'')"
  using assms
  by (auto simp: embed_payload_def basic_payload_fields manifest_payload_fields
           split: option.splits sum.splits if_splits)

lemma outer_payload_fields:
  "dict_get (outer_payload_to_embed a p sg) (cps ''payload'') = Some (JDict p)"
  "dict_get (outer_payload_to_embed a p sg) (cps ''signature'') = Some (JStr sg)"
  "dict_get (outer_payload_to_embed a p sg) (cps ''signer_id'') = Some (JStr (signer_id a))"
  "dict_get (outer_payload_to_embed a p sg) (cps ''format'') = Some (JStr (metadata_format a))"
  by (simp_all add: outer_payload_to_embed_def dict_get_def cps_distinct)

lemma embed_metadata_stages:
  assumes "embed_metadata L a = Inr r"
  shows "\<exists>p sg ob sel.
           embed_payload L a = Inr p \<and> embed_signature L a p = Inr sg
           \<and> embed_outer L a = Inr (outer_payload_to_embed a p sg)
           \<and> serialize_payload L (JDict (outer_payload_to_embed a p sg))
                (Some (serialization_format a)) = Inr ob
           \<and> bytes_to_variation_selectors ob = Inr sel
           \<and> embed_selector_chars L a = Inr sel
           \<and> embed_splice L (text_arg a) (target a) (distribute_across_targets a) sel = Inr r"
  using assms
  by (auto simp: embed_metadata_def embed_selector_chars_def embed_outer_def
           split: sum.splits)

text \<open>
  C9: whenever \<open>embed_metadata\<close> succeeds, the outer envelope that it serialized and
  embedded has a top-level \<open>signer_id\<close> equal to the \<open>signer_id\<close> of its payload and a
  top-level \<open>format\<close> equal to the \<open>format\<close> of its payload, and the format is
  \<open>basic\<close> or \<open>manifest\<close>.
\<close>

theorem envelope_repeats_payload_fields:
  assumes "embed_metadata L a = Inr r"
  shows "\<exists>payload outer ob sel.
           embed_outer L a = Inr outer
           \<and> serialize_payload L (JDict outer) (Some (serialization_format a)) = Inr ob
           \<and> bytes_to_variation_selectors ob = Inr sel
           \<and> embed_splice L (text_arg a) (target a) (distribute_across_targets a) sel = Inr r
           \<and> dict_get outer (cps ''payload'') = Some (JDict payload)
           \<and> dict_get outer (cps ''signer_id'') = dict_get payload (cps ''signer_id'')
           \<and> dict_get outer (cps ''format'') = dict_get payload (cps ''format'')
           \<and> dict_get outer (cps ''signer_id'') = Some (JStr (signer_id a))
           \<and> dict_get outer (cps ''format'') = Some (JStr (metadata_format a))
           \<and> (metadata_format a = cps ''basic'' \<or> metadata_format a = cps ''manifest'')"
proof -
  from embed_metadata_stages [OF assms] obtain p sg ob sel where
    p: "embed_payload L a = Inr p" and
    o: "embed_outer L a = Inr (outer_payload_to_embed a p sg)" and
    s: "serialize_payload L (JDict (outer_payload_to_embed a p sg))
          (Some (serialization_format a)) = Inr ob" and
    b: "bytes_to_variation_selectors ob = Inr sel" and
    e: "embed_splice L (text_arg a) (target a) (distribute_across_targets a) sel = Inr r"
    by blast
  from embed_payload_fields [OF p] o s b e show ?thesis
    by (simp add: outer_payload_fields)
qed


lemma demo_outer_eval:
  "embed_outer demo_lib demo_args
     = Inr (outer_payload_to_embed demo_args demo_payload (cps ''Bz1Yng''))"
  by code_simp

theorem envelope_repeats_payload_fields_witness:
  "embed_metadata demo_lib demo_args
     = Inr (cps ''Hello '' @ selectors_of demo_envelope @ cps ''World'')
   \<and> embed_outer demo_lib demo_args
       = Inr (outer_payload_to_embed demo_args demo_payload (cps ''Bz1Yng''))
   \<and> dict_get (outer_payload_to_embed demo_args demo_payload (cps ''Bz1Yng'')) (cps ''signer_id'')
       = dict_get demo_payload (cps ''signer_id'')
   \<and> dict_get (outer_payload_to_embed demo_args demo_payload (cps ''Bz1Yng'')) (cps ''format'')
       = dict_get demo_payload (cps ''format'')
   \<and> dict_get demo_payload (cps ''signer_id'') = Some (JStr (cps ''demo''))
   \<and> dict_get demo_payload (cps ''format'') = Some (JStr (cps ''basic''))"
proof -
  let ?o = "outer_payload_to_embed demo_args demo_payload (cps ''Bz1Yng'')"
  from envelope_repeats_payload_fields [OF demo_embed_eval] obtain payload outer where
    o: "embed_outer demo_lib demo_args = Inr outer" and
    p: "dict_get outer (cps ''payload'') = Some (JDict payload)" and
    s: "dict_get outer (cps ''signer_id'') = dict_get payload (cps ''signer_id'')" and
    f: "dict_get outer (cps ''format'') = dict_get payload (cps ''format'')" and
    s': "dict_get outer (cps ''signer_id'') = Some (JStr (signer_id demo_args))" and
    f': "dict_get outer (cps ''format'') = Some (JStr (metadata_format demo_args))"
    by blast
  from o demo_outer_eval have oe: "outer = ?o" by simp
  with p have pe: "payload = demo_payload" by (simp add: outer_payload_fields)
  from s f s' f' show ?thesis
    unfolding oe pe using demo_embed_eval demo_outer_eval by (simp add: demo_args_def)
qed

text \<open>
  C10: for the empty string, \<open>verify_metadata\<close> returns \<open>(None, False, None)\<close> at once:
  nothing is raised, whatever the resolver is (callable or not), and the resolver is
  not called.
\<close>

theorem verify_empty_text:
  "verify_metadata L [] public_key_provider return_payload_on_failure
     = (Inr (None, False, None), [])"
  by (simp add: verify_metadata_def)

section \<open>The round trip of embedding and verification\<close>

lemma length_filter_eq_id: "length (filter P xs) = length xs \<Longrightarrow> filter P xs = xs"
proof (induction xs)
  case Nil
  then show ?case by simp
next
  case (Cons a xs)
  show ?case
  proof (cases "P a")
    case True
    with Cons show ?thesis by simp
  next
    case False
    have "length (filter P xs) \<le> length xs" by (rule length_filter_le)
    moreover from Cons.prems False have "length (filter P xs) = Suc (length xs)" by simp
    ultimately have False by linarith
    then show ?thesis ..
  qed
qed

lemma selectors_bytes_valid:
  assumes "bytes_to_variation_selectors B = Inr sel"
  shows "\<forall>b \<in> set B. is_byte b"
proof -
  from assms have "length (filter (\<lambda>s. s \<noteq> None) (map to_variation_selector B)) = length B"
    by (simp add: bytes_to_variation_selectors_def Let_def split: if_splits)
  then have "length (filter (\<lambda>s. s \<noteq> None) (map to_variation_selector B))
               = length (map to_variation_selector B)"
    by simp
  then have "filter (\<lambda>s. s \<noteq> None) (map to_variation_selector B) = map to_variation_selector B"
    by (rule length_filter_eq_id)
  then have "\<forall>x \<in> set (map to_variation_selector B). x \<noteq> None"
    by (simp only: filter_id_conv)
  then have "\<forall>b \<in> set B. \<exists>c. to_variation_selector b = Some c"
    by auto
  then show ?thesis by (simp only: to_vs_Some_iff)
qed

lemma selectors_decode_back:
  assumes "bytes_to_variation_selectors B = Inr sel"
  shows "List.map_filter from_variation_selector sel = B"
proof -
  have v: "\<forall>b \<in> set B. is_byte b" using assms by (rule selectors_bytes_valid)
  with assms selectors_of_bytes [OF v] have "sel = map (the \<circ> to_variation_selector) B"
    by simp
  with selectors_decode [OF v] show ?thesis by simp
qed

lemma extract_bytes_spliced:
  assumes pre: "\<forall>c \<in> set pre. \<not> is_vs c"
    and sel: "\<forall>c \<in> set sel. is_vs c" and ne: "sel \<noteq> []"
    and post: "post = [] \<or> \<not> is_vs (hd post)"
  shows "extract_bytes (pre @ sel @ post) = List.map_filter from_variation_selector sel"
proof -
  have "dropWhile (\<lambda>c. \<not> is_vs c) (pre @ sel @ post) = dropWhile (\<lambda>c. \<not> is_vs c) (sel @ post)"
    using pre by (simp add: dropWhile_append2)
  also have "\<dots> = sel @ post"
    using sel ne by (cases sel) auto
  finally have d: "dropWhile (\<lambda>c. \<not> is_vs c) (pre @ sel @ post) = sel @ post" .
  have "takeWhile is_vs (sel @ post) = sel @ takeWhile is_vs post"
    using sel by (simp add: takeWhile_append2)
  also have "takeWhile is_vs post = []"
    using post by (cases post) auto
  finally have t: "takeWhile is_vs (sel @ post) = sel" by simp
  show ?thesis by (simp only: extract_bytes_char d t)
qed

lemma single_point_result:
  assumes "embed_splice L s tgt False sel = Inr r" and "sel \<noteq> []"
    and "find_targets L s tgt = Inr (t # ts)"
  shows "r = take (t + 1) s @ sel @ drop (t + 1) s"
  using assms by (simp add: embed_splice_def embedding_target_same Let_def)

lemma extract_single_point:
  assumes v: "\<forall>c \<in> set sel. is_vs c" and ne: "sel \<noteq> []"
    and clean: "\<forall>c \<in> set (take (t + 2) s). \<not> is_vs c"
  shows "extract_bytes (take (t + 1) s @ sel @ drop (t + 1) s)
           = List.map_filter from_variation_selector sel"
proof (rule extract_bytes_spliced [OF _ v ne])
  have "set (take (t + 1) s) \<subseteq> set (take (t + 2) s)"
    by (rule set_take_subset_set_take) simp
  with clean show "\<forall>c \<in> set (take (t + 1) s). \<not> is_vs c" by blast
next
  show "drop (t + 1) s = [] \<or> \<not> is_vs (hd (drop (t + 1) s))"
  proof (cases "t + 1 < length s")
    case False
    then show ?thesis by simp
  next
    case True
    then have "hd (drop (t + 1) s) = s ! (t + 1)" by (simp add: hd_drop_conv_nth)
    moreover have "s ! (t + 1) \<in> set (take (t + 2) s)"
      using True by (auto simp: in_set_conv_nth intro!: exI [of _ "t + 1"])
    ultimately show ?thesis using clean by simp
  qed
qed

lemma required_keys_outer:
  "\<forall>k \<in> set required_keys. dict_get (outer_payload_to_embed a p sg) k \<noteq> None"
  by (simp add: required_keys_def outer_payload_fields)


lemma decode_ascii_Some:
  "decode_ascii bs = Some s \<Longrightarrow> s = bs \<and> (\<forall>c \<in> set s. c < 128)"
  by (auto simp: decode_ascii_def split: if_splits)

lemma urlsafe_b64decode_ascii:
  assumes "\<forall>c \<in> set s. c < 128" and "b64decode L s = Some b"
  shows "urlsafe_b64decode L s = Inr b"
proof -
  have "\<not> (\<exists>c \<in> set s. 128 \<le> c)" using assms(1) by fastforce
  with assms(2) show ?thesis by (simp add: urlsafe_b64decode_def)
qed

lemma verify_with_key_valid:
  assumes "serialize_payload L (JDict P) None = Inr cb"
    and "\<forall>c \<in> set s64. c < 128"
    and "b64decode L (s64 @ replicate (nat ((- int (length s64)) mod 4)) 0x3D) = Some sg"
    and "verify_signature L pk cb sg = Inr True"
  shows "verify_with_key L pk (JDict P) (JStr s64) flag sid = Inr (Some (JDict P), True, Some sid)"
proof -
  let ?padded = "s64 @ replicate (nat ((- int (length s64)) mod 4)) 0x3D"
  have "\<forall>c \<in> set ?padded. c < 128" using assms(2) by auto
  then have "urlsafe_b64decode L ?padded = Inr sg"
    using assms(3) by (rule urlsafe_b64decode_ascii)
  with assms(1,4) show ?thesis
    by (simp add: verify_with_key_def py_dict_def pad_signature_def)
qed

lemma extract_outer_payload_embedded:
  assumes "extract_bytes r = ob" and "ob \<noteq> []"
    and "deserialize_outer_bytes L ob = Some (JDict (outer_payload_to_embed a P s64))"
  shows "extract_outer_payload L r = Some (outer_payload_to_embed a P s64)"
  using assms required_keys_outer [of a P s64]
  by (simp add: extract_outer_payload_def Let_def)

text \<open>
  C1, as stated: for every host text with an anchor, verifying the embedded text with
  the matching public key gives the payload and the verdict true. It fails for a host
  text with a variation selector of its own before the anchor: here the text is \<open>a\<close>,
  U+FE0F, a space and \<open>b\<close>, the selectors go after the space, and extraction reads the
  run that starts at U+FE0F, which is the single byte 15.
\<close>

theorem roundtrip_counterexample:
  "\<not> isl (embed_metadata demo_lib (demo_args\<lparr>text_arg := [0x61, 0xFE0F, 0x20, 0x62]\<rparr>))
   \<and> find_targets demo_lib [0x61, 0xFE0F, 0x20, 0x62] TargetNone = Inr [2]
   \<and> extract_bytes (projr (embed_metadata demo_lib
         (demo_args\<lparr>text_arg := [0x61, 0xFE0F, 0x20, 0x62]\<rparr>))) = [15]
   \<and> verify_metadata demo_lib
        (projr (embed_metadata demo_lib (demo_args\<lparr>text_arg := [0x61, 0xFE0F, 0x20, 0x62]\<rparr>)))
        demo_provider False
       = (Inr (None, False, None), [])"
  by code_simp

text \<open>
  C1, amended: in the single-point mode, for a host text that has no variation selector
  at or before its first anchor nor right after it, and where the library calls of this
  very call keep their contracts (the serialized envelope is not empty and deserializes
  to the envelope, the base64 text of the signature decodes to the signature, and the
  public key verifies the signature over the canonical payload bytes), verifying the
  embedded text with a resolver that returns that Ed25519 public key gives the payload
  that \<open>embed_metadata\<close> built (the given fields with the timestamp normalized), the
  verdict true and the signer id, after one call of the resolver. This holds for both
  payload formats and every serialization format.
\<close>

theorem embed_verify_roundtrip:
  assumes emb: "embed_metadata L a = Inr r"
    and single: "\<not> distribute_across_targets a"
    and anchor: "find_targets L (text_arg a) (target a) = Inr (t # ts)"
    and clean: "\<forall>c \<in> set (take (t + 2) (text_arg a)). \<not> is_vs c"
    and payload: "embed_payload L a = Inr P"
    and canon: "serialize_payload L (JDict P) None = Inr cb"
    and sign: "sign_payload L (private_key a) cb = Inr sg"
    and s64: "s64 = rstrip_eq (b64encode L sg)"
    and b64: "b64decode L (s64 @ replicate (nat ((- int (length s64)) mod 4)) 0x3D) = Some sg"
    and ser: "serialize_payload L (JDict (outer_payload_to_embed a P s64))
                (Some (serialization_format a)) = Inr ob"
    and nonempty: "ob \<noteq> []"
    and transport: "deserialize_outer_bytes L ob = Some (JDict (outer_payload_to_embed a P s64))"
    and resolver: "f (JStr (signer_id a)) = Inr (Some pk)"
    and pk: "class_of pk = Ed25519PublicKey"
    and keypair: "verify_signature L pk cb sg = Inr True"
  shows "verify_metadata L r (Callable f) flag
           = (Inr (Some (JDict P), True, Some (JStr (signer_id a))), [JStr (signer_id a)])"
proof -
  from embed_metadata_stages [OF emb] payload obtain sg' ob' sel where
    es: "embed_signature L a P = Inr sg'" and
    ser': "serialize_payload L (JDict (outer_payload_to_embed a P sg'))
             (Some (serialization_format a)) = Inr ob'" and
    sel: "bytes_to_variation_selectors ob' = Inr sel" and
    sp: "embed_splice L (text_arg a) (target a) (distribute_across_targets a) sel = Inr r"
    by auto
  from es canon sign have "decode_ascii (rstrip_eq (b64encode L sg)) = Some sg'"
    by (simp add: embed_signature_def split: option.splits)
  from decode_ascii_Some [OF this] s64 have sg': "sg' = s64" and ascii: "\<forall>c \<in> set s64. c < 128"
    by simp_all
  from ser ser' sg' have ob': "ob' = ob" by simp
  have v: "\<forall>c \<in> set sel. is_vs c" using sel by (rule selectors_all_vs)
  have "length sel = length ob" using selectors_length [OF sel] ob' by simp
  with nonempty have ne: "sel \<noteq> []" by auto
  from sp single have "embed_splice L (text_arg a) (target a) False sel = Inr r" by simp
  from single_point_result [OF this ne anchor]
  have r: "r = take (t + 1) (text_arg a) @ sel @ drop (t + 1) (text_arg a)" .
  have "extract_bytes r = List.map_filter from_variation_selector sel"
    unfolding r using v ne clean by (rule extract_single_point)
  also have "\<dots> = ob" using selectors_decode_back [OF sel] ob' by simp
  finally have eb: "extract_bytes r = ob" .
  have eo: "extract_outer_payload L r = Some (outer_payload_to_embed a P s64)"
    using eb nonempty transport by (rule extract_outer_payload_embedded)
  have rne: "r \<noteq> []" using r ne by simp
  have pub: "is_public_key_type pk" using pk by (simp add: is_public_key_type_def)
  have vk: "verify_with_key L pk (JDict P) (JStr s64) flag (JStr (signer_id a))
              = Inr (Some (JDict P), True, Some (JStr (signer_id a)))"
    using canon ascii b64 keypair by (rule verify_with_key_valid)
  show ?thesis
    using rne eo resolver pub vk
    by (simp add: verify_metadata_def verify_and_extract_metadata_def outer_payload_fields)
qed

lemma demo_roundtrip_facts:
  "find_targets demo_lib (text_arg demo_args) (target demo_args) = Inr [5]"
  "\<forall>c \<in> set (take (5 + 2) (text_arg demo_args)). \<not> is_vs c"
  "embed_payload demo_lib demo_args = Inr demo_payload"
  "serialize_payload demo_lib (JDict demo_payload) None = Inr (json_text (JDict demo_payload))"
  "sign_payload demo_lib (private_key demo_args) (json_text (JDict demo_payload))
     = Inr (demo_tag 7 (json_text (JDict demo_payload)))"
  "cps ''Bz1Yng'' = rstrip_eq (b64encode demo_lib (demo_tag 7 (json_text (JDict demo_payload))))"
  "b64decode demo_lib (cps ''Bz1Yng'' @ replicate (nat ((- int (length (cps ''Bz1Yng''))) mod 4)) 0x3D)
     = Some (demo_tag 7 (json_text (JDict demo_payload)))"
  "serialize_payload demo_lib (JDict (outer_payload_to_embed demo_args demo_payload (cps ''Bz1Yng'')))
     (Some (serialization_format demo_args)) = Inr demo_envelope"
  "demo_envelope \<noteq> []"
  "deserialize_outer_bytes demo_lib demo_envelope
     = Some (JDict (outer_payload_to_embed demo_args demo_payload (cps ''Bz1Yng'')))"
  "verify_signature demo_lib (KeyObj Ed25519PublicKey 7) (json_text (JDict demo_payload))
     (demo_tag 7 (json_text (JDict demo_payload))) = Inr True"
  by code_simp+

theorem embed_verify_roundtrip_witness:
  "embed_metadata demo_lib demo_args
     = Inr (cps ''Hello '' @ selectors_of demo_envelope @ cps ''World'')
   \<and> verify_metadata demo_lib (cps ''Hello '' @ selectors_of demo_envelope @ cps ''World'')
        (Callable (\<lambda>sid. Inr (Some (KeyObj Ed25519PublicKey 7)))) False
       = (Inr (Some (JDict demo_payload), True, Some (JStr (cps ''demo''))),
          [JStr (cps ''demo'')])"
proof -
  have single: "\<not> distribute_across_targets demo_args" by (simp add: demo_args_def)
  have res: "(\<lambda>sid. Inr (Some (KeyObj Ed25519PublicKey 7))) (JStr (signer_id demo_args))
               = (Inr (Some (KeyObj Ed25519PublicKey 7)) :: exn + key_obj option)"
    by simp
  have pk: "class_of (KeyObj Ed25519PublicKey 7) = Ed25519PublicKey" by simp
  have sid: "signer_id demo_args = cps ''demo''" by (simp add: demo_args_def)
  from embed_verify_roundtrip [OF demo_embed_eval single demo_roundtrip_facts(1,2,3,4,5,6,7,8,9,10)
      res pk demo_roundtrip_facts(11), of False]
  show ?thesis using demo_embed_eval by (simp only: sid simp_thms)
qed

text \<open>
  The same round trip, run for the manifest format carried as JUMBF, with a punctuation
  target given as a string.
\<close>

lemma demo_manifest_jumbf_roundtrip:
  "(case embed_metadata demo_lib demo_manifest_args of
      Inl e \<Rightarrow> False
    | Inr r \<Rightarrow>
       (case embed_payload demo_lib demo_manifest_args of
          Inl e \<Rightarrow> False
        | Inr P \<Rightarrow>
            dict_get P (cps ''format'') = Some (JStr (cps ''manifest''))
            \<and> verify_metadata demo_lib r demo_provider False
                = (Inr (Some (JDict P), True, Some (JStr (cps ''demo''))),
                   [JStr (cps ''demo'')])))"
  by code_simp

text \<open>
  In the distributed mode every selector stands after a different character of the host
  text, and extraction stops at the first character after the first selector: it reads
  one byte, and verification finds no envelope.
\<close>

lemma demo_distributed_not_verified:
  "(case embed_metadata demo_lib demo_distributed_args of
      Inl e \<Rightarrow> False
    | Inr r \<Rightarrow> extract_bytes r = [0x7B]
              \<and> verify_metadata demo_lib r demo_provider False = (Inr (None, False, None), []))"
  by code_simp

section \<open>Exceptions that escape\<close>

lemma verify_with_key_outcomes:
  "verify_with_key L k inner sg flag sid = Inr (Some inner, True, Some sid)
   \<or> verify_with_key L k inner sg flag sid = Inr (failure inner flag sid)
   \<or> (verify_with_key L k inner sg flag sid = Inl ValueError
       \<and> (\<exists>s. sg = JStr s \<and> (\<exists>c \<in> set s. 128 \<le> c)))"
proof (cases sg)
  case (JStr s)
  show ?thesis
  proof (cases "\<exists>c \<in> set s. 128 \<le> c")
    case True
    then have "\<exists>c \<in> set (s @ replicate (nat ((- int (length s)) mod 4)) 0x3D). 128 \<le> c"
      by auto
    then have "urlsafe_b64decode L (s @ replicate (nat ((- int (length s)) mod 4)) 0x3D)
                 = Inl ValueError"
      by (simp only: urlsafe_b64decode_def if_True)
    with JStr True show ?thesis
      by (auto simp: verify_with_key_def pad_signature_def split: sum.splits)
  next
    case False
    then have "\<not> (\<exists>c \<in> set (s @ replicate (nat ((- int (length s)) mod 4)) 0x3D). 128 \<le> c)"
      by auto
    then have "urlsafe_b64decode L (s @ replicate (nat ((- int (length s)) mod 4)) 0x3D)
                 \<noteq> Inl ValueError"
      by (simp add: urlsafe_b64decode_def split: option.splits)
    with JStr show ?thesis
      by (auto simp: verify_with_key_def pad_signature_def urlsafe_b64decode_def
               split: sum.splits option.splits if_splits)
  qed
qed (auto simp: verify_with_key_def pad_signature_def split: sum.splits)

lemma extract_outer_payload_keys:
  assumes "extract_outer_payload L s = Some d"
  shows "dict_get d (cps ''payload'') \<noteq> None \<and> dict_get d (cps ''signature'') \<noteq> None
         \<and> dict_get d (cps ''signer_id'') \<noteq> None \<and> dict_get d (cps ''format'') \<noteq> None"
  using assms
  by (auto simp: extract_outer_payload_def Let_def required_keys_def
           split: if_splits option.splits jvalue.splits)

lemma verify_raises_only_value_error:
  assumes "fst (verify_and_extract_metadata L s p flag) = Inl e"
  shows "e = ValueError
         \<and> (\<exists>outer sg. extract_outer_payload L s = Some outer
               \<and> dict_get outer (cps ''signature'') = Some (JStr sg)
               \<and> (\<exists>c \<in> set sg. 128 \<le> c))"
proof (cases "extract_outer_payload L s")
  case None
  with assms show ?thesis by (simp add: verify_and_extract_metadata_def)
next
  case (Some outer)
  from extract_outer_payload_keys [OF Some] obtain inner sg sid where
    i: "dict_get outer (cps ''payload'') = Some inner" and
    g: "dict_get outer (cps ''signature'') = Some sg" and
    d: "dict_get outer (cps ''signer_id'') = Some sid"
    by auto
  show ?thesis
  proof (cases "call_provider p sid")
    case (Inl x)
    with assms Some i g d show ?thesis by (simp add: verify_and_extract_metadata_def)
  next
    case (Inr ko)
    show ?thesis
    proof (cases ko)
      case None
      with assms Some i g d Inr show ?thesis by (simp add: verify_and_extract_metadata_def)
    next
      case (Some k)
      show ?thesis
      proof (cases "is_public_key_type k")
        case False
        with assms \<open>extract_outer_payload L s = Some outer\<close> i g d Inr Some show ?thesis
          by (simp add: verify_and_extract_metadata_def)
      next
        case True
        with assms \<open>extract_outer_payload L s = Some outer\<close> i g d Inr Some
        have "verify_with_key L k inner sg flag sid = Inl e"
          by (simp add: verify_and_extract_metadata_def)
        with verify_with_key_outcomes [of L k inner sg flag sid]
        have "e = ValueError \<and> (\<exists>s. sg = JStr s \<and> (\<exists>c \<in> set s. 128 \<le> c))"
          by auto
        with \<open>extract_outer_payload L s = Some outer\<close> g show ?thesis by auto
      qed
    qed
  qed
qed

lemma non_ascii_signature_raises:
  assumes "extract_outer_payload L s = Some outer"
    and "dict_get outer (cps ''signer_id'') = Some sid"
    and "dict_get outer (cps ''payload'') = Some (JDict d)"
    and "dict_get outer (cps ''signature'') = Some (JStr sg)"
    and "\<exists>c \<in> set sg. 128 \<le> c"
    and "call_provider p sid = Inr (Some k)" and "is_public_key_type k"
    and "serialize_payload L (JDict d) None = Inr cb"
  shows "fst (verify_and_extract_metadata L s p flag) = Inl ValueError"
proof -
  from assms(5)
  have "\<exists>c \<in> set (sg @ replicate (nat ((- int (length sg)) mod 4)) 0x3D). 128 \<le> c"
    by auto
  then have "urlsafe_b64decode L (sg @ replicate (nat ((- int (length sg)) mod 4)) 0x3D)
               = Inl ValueError"
    by (simp only: urlsafe_b64decode_def if_True)
  with assms(8) have "verify_with_key L k (JDict d) (JStr sg) flag sid = Inl ValueError"
    by (simp add: verify_with_key_def py_dict_def pad_signature_def)
  with assms(1,2,3,4,6,7) show ?thesis
    by (simp add: verify_and_extract_metadata_def)
qed

lemma spec_verify_signature_other_key:
  "class_of k \<noteq> Ed25519PublicKey \<Longrightarrow> spec_verify_signature ed k msg sg = Inl TypeError"
  by (cases k) (auto simp: spec_verify_signature_def split: key_class.splits)

lemma non_ed25519_key_rejected:
  assumes "verify_signature L = spec_verify_signature ed"
    and "class_of k \<noteq> Ed25519PublicKey"
    and "\<not> (\<exists>s. sg = JStr s \<and> (\<exists>c \<in> set s. 128 \<le> c))"
  shows "verify_with_key L k inner sg flag sid = Inr (failure inner flag sid)"
proof -
  have "\<And>cb sb. verify_signature L k cb sb = Inl TypeError"
    using assms(1,2) by (simp add: spec_verify_signature_other_key)
  then have "verify_with_key L k inner sg flag sid \<noteq> Inr (Some inner, True, Some sid)"
    by (auto simp: verify_with_key_def failure_def split: sum.splits if_splits)
  with verify_with_key_outcomes [of L k inner sg flag sid] assms(3) show ?thesis
    by auto
qed

lemma verdict_true_needs_ed25519:
  assumes "verify_signature L = spec_verify_signature ed"
    and "fst (verify_and_extract_metadata L s p flag) = Inr (pl, True, sid')"
  shows "\<exists>sid k. call_provider p sid = Inr (Some k) \<and> class_of k = Ed25519PublicKey"
proof (rule ccontr)
  assume n: "\<not> (\<exists>sid k. call_provider p sid = Inr (Some k) \<and> class_of k = Ed25519PublicKey)"
  then have "\<And>sid k cb sb. call_provider p sid = Inr (Some k) \<Longrightarrow>
               verify_signature L k cb sb = Inl TypeError"
    using assms(1) by (auto simp: spec_verify_signature_other_key)
  with assms(2) show False
    by (auto simp: verify_and_extract_metadata_def verify_with_key_def failure_def
             split: option.splits sum.splits if_splits)
qed

text \<open>
  C8: an integer timestamp outside the range of \<open>time_t\<close> is an invalid timestamp
  value, and \<open>_format_timestamp\<close> raises OverflowError for it: the \<open>except\<close> clause
  names OSError and ValueError only. \<open>embed_metadata\<close> lets the OverflowError through
  as well.
\<close>

theorem format_timestamp_overflow:
  "format_timestamp L (Some (TsInt (10 ^ 20))) = Inl OverflowError
   \<and> embed_metadata demo_lib (demo_args\<lparr>timestamp := Some (TsInt (10 ^ 20))\<rparr>)
       = Inl OverflowError"
proof
  show "format_timestamp L (Some (TsInt (10 ^ 20))) = Inl OverflowError"
    by (simp add: format_timestamp_def fromtimestamp_utc_def)
  show "embed_metadata demo_lib (demo_args\<lparr>timestamp := Some (TsInt (10 ^ 20))\<rparr>)
          = Inl OverflowError"
    by code_simp
qed

lemma demo_bad_envelope_extracted:
  "extract_outer_payload demo_lib (0x58 # selectors_of bad_signature_envelope)
     = Some [(cps ''payload'', JDict []), (cps ''signature'', JStr [0xE9]),
             (cps ''signer_id'', JStr (cps ''demo'')), (cps ''format'', JStr (cps ''basic''))]"
  by code_simp

text \<open>
  C6: a signature with a character outside ASCII is a malformed base64 text, and
  \<open>verify_metadata\<close> raises ValueError for it instead of returning the triple: the
  \<open>except\<close> clause around the decoding names \<open>binascii.Error\<close> and TypeError only.
  By \<open>verify_raises_only_value_error\<close> this is the only exception that leaves
  \<open>verify_and_extract_metadata\<close>.
\<close>

theorem verify_raises_on_non_ascii_signature:
  "verify_metadata demo_lib (0x58 # selectors_of bad_signature_envelope) demo_provider False
     = (Inl ValueError, [JStr (cps ''demo'')])"
  by code_simp

text \<open>
  C7: with a resolver that returns an RSA public key, the same text makes
  \<open>verify_metadata\<close> raise ValueError, for both values of the flag, where the claim has
  the verdict false. For every other signature value a key that is not an Ed25519
  public key gives the failure triple (\<open>non_ed25519_key_rejected\<close>), and the verdict
  true needs an Ed25519 public key (\<open>verdict_true_needs_ed25519\<close>).
\<close>

theorem verify_raises_with_rsa_key:
  "verify_metadata demo_lib (0x58 # selectors_of bad_signature_envelope) rsa_provider False
     = (Inl ValueError, [JStr (cps ''demo'')])
   \<and> verify_metadata demo_lib (0x58 # selectors_of bad_signature_envelope) rsa_provider True
       = (Inl ValueError, [JStr (cps ''demo'')])"
  by code_simp

end
